theory Spec2Isabelle
  imports Main
begin

section \<open>Python values used by \<open>nox_poetry/poetry.py\<close>\<close>

text \<open>
  A Python \<open>str\<close> is a sequence of Unicode code points, so a string is a list of
  naturals. \<open>lit\<close> turns a literal of the source into its code points.
\<close>

type_synonym pystr = "nat list"

definition lit :: "string \<Rightarrow> pystr" where
  "lit s = map of_char s"

text \<open>\<open>str.startswith(prefix)\<close>.\<close>

definition startswith :: "pystr \<Rightarrow> pystr \<Rightarrow> bool" where
  "startswith s p = (take (length p) s = p)"

text \<open>\<open>p in s\<close> on strings: \<open>p\<close> occurs in \<open>s\<close>.\<close>

fun contains :: "pystr \<Rightarrow> pystr \<Rightarrow> bool" where
  "contains [] p = (p = [])"
| "contains (c # s) p = (startswith (c # s) p \<or> contains s p)"

text \<open>
  The line boundaries of \<open>str.splitlines\<close>: LF, VT, FF, CR, FS, GS, RS, NEL, LS and PS
  (CR LF counts as one boundary, see \<open>splitlines_from\<close>).
\<close>

definition is_linebreak :: "nat \<Rightarrow> bool" where
  "is_linebreak c = (c \<in> {0x0A, 0x0B, 0x0C, 0x0D, 0x1C, 0x1D, 0x1E, 0x85, 0x2028, 0x2029})"

text \<open>
  \<open>str.splitlines(keepends=True)\<close>: \<open>splitlines_from cur s\<close> scans \<open>s\<close> with the line
  read so far in \<open>cur\<close>. Every line keeps its terminator; a last line without
  terminator is kept when it is not empty.
\<close>

fun splitlines_from :: "pystr \<Rightarrow> pystr \<Rightarrow> pystr list" where
  "splitlines_from cur [] = (if cur = [] then [] else [cur])"
| "splitlines_from cur [c] = [cur @ [c]]"
| "splitlines_from cur (c # d # s) =
     (if c = 0x0D \<and> d = 0x0A then (cur @ [c, d]) # splitlines_from [] s
      else if is_linebreak c then (cur @ [c]) # splitlines_from [] (d # s)
      else splitlines_from (cur @ [c]) (d # s))"

definition splitlines_keepends :: "pystr \<Rightarrow> pystr list" where
  "splitlines_keepends s = splitlines_from [] s"

text \<open>
  The characters for which \<open>str.isspace\<close> holds; \<open>str.split()\<close> without separator
  splits at runs of them.
\<close>

definition isspace :: "nat \<Rightarrow> bool" where
  "isspace c =
     ((0x09 \<le> c \<and> c \<le> 0x0D) \<or> (0x1C \<le> c \<and> c \<le> 0x20) \<or> c = 0x85 \<or> c = 0xA0
      \<or> c = 0x1680 \<or> (0x2000 \<le> c \<and> c \<le> 0x200A) \<or> c = 0x2028 \<or> c = 0x2029
      \<or> c = 0x202F \<or> c = 0x205F \<or> c = 0x3000)"

text \<open>
  \<open>str.split()\<close>: \<open>split_from cur s\<close> scans \<open>s\<close> with the token read so far in
  \<open>cur\<close>; leading, trailing and repeated whitespace yields no empty token.
\<close>

fun split_from :: "pystr \<Rightarrow> pystr \<Rightarrow> pystr list" where
  "split_from cur [] = (if cur = [] then [] else [cur])"
| "split_from cur (c # s) =
     (if isspace c then (if cur = [] then split_from [] s else cur # split_from [] s)
      else split_from (cur @ [c]) s)"

definition split :: "pystr \<Rightarrow> pystr list" where
  "split s = split_from [] s"

text \<open>The exceptions that the module raises or lets through.\<close>

datatype error =
    KeyError pystr
  | TypeError
  | AttributeError
  | AssertionError
  | ValueError pystr
  | IndexError
  | CommandSkippedError pystr
  | IncompatiblePoetryVersionError
  | External pystr

text \<open>\<open>xs[-1]\<close> on a list: the last element, \<open>IndexError\<close> on the empty list.\<close>

definition last_item :: "'a list \<Rightarrow> error + 'a" where
  "last_item xs = (if xs = [] then Inl IndexError else Inr (last xs))"

text \<open>
  The items of a parsed TOML document. A table is a dictionary in document order;
  numbers other than integers and dates are kept as their text.
\<close>

datatype toml =
    String pystr
  | Integer int
  | Bool bool
  | Other pystr
  | Array "toml list"
  | Table "(pystr \<times> toml) list"

text \<open>\<open>item[key]\<close> with a string key: only a table can be indexed by a string.\<close>

fun getitem :: "toml \<Rightarrow> pystr \<Rightarrow> error + toml" where
  "getitem (Table kvs) k = (case map_of kvs k of None \<Rightarrow> Inl (KeyError k) | Some v \<Rightarrow> Inr v)"
| "getitem _ k = Inl TypeError"

text \<open>\<open>item.get(key, default)\<close>: only a table has the method.\<close>

fun get_default :: "toml \<Rightarrow> pystr \<Rightarrow> toml \<Rightarrow> error + toml" where
  "get_default (Table kvs) k d = (case map_of kvs k of None \<Rightarrow> Inr d | Some v \<Rightarrow> Inr v)"
| "get_default _ k d = Inl AttributeError"

section \<open>Versions\<close>

text \<open>
  Modelled from the spec: \<open>packaging.version.Version\<close>, the type of
  \<open>Config.version()\<close> and of \<open>MINIMUM_VERSION_SUPPORTING_GROUP_DEPS\<close>, is not part of
  the sources. The spec asks for "standard version-ordering semantics" with
  "component-wise version comparison (not string comparison)", and names pre-releases;
  the model is a parsed version (epoch, release numbers, pre-release, post-release,
  development release, local label) ordered by its comparison key: trailing zero
  components of the release do not count, a pre-release or development release comes
  before the release, a post-release and a local label after it.
\<close>

record Version =
  epoch :: nat
  release :: "nat list"
  pre :: "(pystr \<times> nat) option"
  post :: "(pystr \<times> nat) option"
  dev :: "(pystr \<times> nat) option"
  local_label :: "(nat + pystr) list option"

datatype 'a bounded = NegativeInfinity | Finite 'a | Infinity

datatype ordering = LT | EQ | GT

definition cmp_nat :: "nat \<Rightarrow> nat \<Rightarrow> ordering" where
  "cmp_nat a b = (if a < b then LT else if a = b then EQ else GT)"

text \<open>Sequences (tuples, strings) compare at the first difference, a proper prefix first.\<close>

fun cmp_seq :: "('a \<Rightarrow> 'a \<Rightarrow> ordering) \<Rightarrow> 'a list \<Rightarrow> 'a list \<Rightarrow> ordering" where
  "cmp_seq c [] [] = EQ"
| "cmp_seq c [] (y # ys) = LT"
| "cmp_seq c (x # xs) [] = GT"
| "cmp_seq c (x # xs) (y # ys) = (case c x y of EQ \<Rightarrow> cmp_seq c xs ys | r \<Rightarrow> r)"

definition cmp_pair ::
  "('a \<Rightarrow> 'a \<Rightarrow> ordering) \<Rightarrow> ('b \<Rightarrow> 'b \<Rightarrow> ordering) \<Rightarrow> 'a \<times> 'b \<Rightarrow> 'a \<times> 'b \<Rightarrow> ordering" where
  "cmp_pair ca cb p q = (case ca (fst p) (fst q) of EQ \<Rightarrow> cb (snd p) (snd q) | r \<Rightarrow> r)"

fun cmp_bounded :: "('a \<Rightarrow> 'a \<Rightarrow> ordering) \<Rightarrow> 'a bounded \<Rightarrow> 'a bounded \<Rightarrow> ordering" where
  "cmp_bounded c NegativeInfinity NegativeInfinity = EQ"
| "cmp_bounded c NegativeInfinity _ = LT"
| "cmp_bounded c Infinity Infinity = EQ"
| "cmp_bounded c Infinity _ = GT"
| "cmp_bounded c (Finite a) NegativeInfinity = GT"
| "cmp_bounded c (Finite a) Infinity = LT"
| "cmp_bounded c (Finite a) (Finite b) = c a b"

definition cmp_str :: "pystr \<Rightarrow> pystr \<Rightarrow> ordering" where
  "cmp_str = cmp_seq cmp_nat"

definition cmp_letter :: "pystr \<times> nat \<Rightarrow> pystr \<times> nat \<Rightarrow> ordering" where
  "cmp_letter = cmp_pair cmp_str cmp_nat"

type_synonym cmpkey =
  "nat \<times> nat list \<times> (pystr \<times> nat) bounded \<times> (pystr \<times> nat) bounded
     \<times> (pystr \<times> nat) bounded \<times> (nat bounded \<times> pystr) list bounded"

definition strip_trailing_zeros :: "nat list \<Rightarrow> nat list" where
  "strip_trailing_zeros r = rev (dropWhile (\<lambda>x. x = 0) (rev r))"

definition local_part :: "nat + pystr \<Rightarrow> nat bounded \<times> pystr" where
  "local_part i = (case i of Inl n \<Rightarrow> (Finite n, []) | Inr s \<Rightarrow> (NegativeInfinity, s))"

definition cmpkey :: "Version \<Rightarrow> cmpkey" where
  "cmpkey v =
     (epoch v,
      strip_trailing_zeros (release v),
      (if pre v = None \<and> post v = None \<and> dev v \<noteq> None then NegativeInfinity
       else case pre v of None \<Rightarrow> Infinity | Some p \<Rightarrow> Finite p),
      (case post v of None \<Rightarrow> NegativeInfinity | Some p \<Rightarrow> Finite p),
      (case dev v of None \<Rightarrow> Infinity | Some d \<Rightarrow> Finite d),
      (case local_label v of None \<Rightarrow> NegativeInfinity | Some l \<Rightarrow> Finite (map local_part l)))"

definition cmp_key :: "cmpkey \<Rightarrow> cmpkey \<Rightarrow> ordering" where
  "cmp_key =
     cmp_pair cmp_nat (cmp_pair (cmp_seq cmp_nat) (cmp_pair (cmp_bounded cmp_letter)
       (cmp_pair (cmp_bounded cmp_letter) (cmp_pair (cmp_bounded cmp_letter)
         (cmp_bounded (cmp_seq (cmp_pair (cmp_bounded cmp_nat) cmp_str)))))))"

text \<open>\<open>a >= b\<close> on versions compares the keys.\<close>

definition version_ge :: "Version \<Rightarrow> Version \<Rightarrow> bool" where
  "version_ge a b = (cmp_key (cmpkey a) (cmpkey b) \<noteq> LT)"

text \<open>
  The comparison in the spec's words, for release numbers: component by component, a
  missing component counting as zero (1.2 is 1.2.0); not read off the comparison key.
\<close>

fun componentwise_cmp :: "nat list \<Rightarrow> nat list \<Rightarrow> ordering" where
  "componentwise_cmp [] [] = EQ"
| "componentwise_cmp (x # xs) [] = (if x = 0 then componentwise_cmp xs [] else GT)"
| "componentwise_cmp [] (y # ys) = (if y = 0 then componentwise_cmp [] ys else LT)"
| "componentwise_cmp (x # xs) (y # ys) =
     (if x < y then LT else if y < x then GT else componentwise_cmp xs ys)"

text \<open>A final release \<open>Version("a.b.c")\<close>.\<close>

definition final_release :: "nat list \<Rightarrow> Version" where
  "final_release r =
     \<lparr>epoch = 0, release = r, pre = None, post = None, dev = None, local_label = None\<rparr>"

section \<open>The configuration reader: class \<open>Config\<close>\<close>

text \<open>
  What the adapter sees of its surroundings: the outcome of reading and parsing
  \<open>pyproject.toml\<close> in the working directory (the document, or the exception of
  \<open>read_text\<close> or \<open>tomlkit.parse\<close>), the outcome of
  \<open>Version(metadata.version("poetry"))\<close> (the installed version, or the exception
  when Poetry is not installed or its version does not parse), the text written to
  \<open>sys.stderr\<close> so far, and how often the manifest has been read.
\<close>

record env =
  pyproject :: "error + (pystr \<times> toml) list"
  poetry_version :: "error + Version"
  sys_stderr :: pystr
  manifest_reads :: nat

text \<open>The attribute \<open>_config\<close> of a \<open>Config\<close>: the item at \<open>data["tool"]["poetry"]\<close>.\<close>

record Config =
  config_data :: toml

definition MINIMUM_VERSION_SUPPORTING_GROUP_DEPS :: Version where
  "MINIMUM_VERSION_SUPPORTING_GROUP_DEPS = final_release [1, 2, 0]"

definition Config_init :: "env \<Rightarrow> (error + Config) \<times> env" where
  "Config_init e =
     (let e' = e\<lparr>manifest_reads := Suc (manifest_reads e)\<rparr> in
      case pyproject e of
        Inl err \<Rightarrow> (Inl err, e')
      | Inr data \<Rightarrow>
          (case getitem (Table data) (lit ''tool'') of
             Inl err \<Rightarrow> (Inl err, e')
           | Inr tool \<Rightarrow>
               (case getitem tool (lit ''poetry'') of
                  Inl err \<Rightarrow> (Inl err, e')
                | Inr poetry \<Rightarrow> (Inr \<lparr>config_data = poetry\<rparr>, e'))))"

definition Config_name :: "Config \<Rightarrow> error + pystr" where
  "Config_name c =
     (case getitem (config_data c) (lit ''name'') of
        Inl err \<Rightarrow> Inl err
      | Inr (String name) \<Rightarrow> Inr name
      | Inr _ \<Rightarrow> Inl AssertionError)"

text \<open>
  The keys of a table are strings, so the second conjunct of the assertion holds for
  every table; \<open>list(extras)\<close> is the keys in document order.
\<close>

definition Config_extras :: "Config \<Rightarrow> error + pystr list" where
  "Config_extras c =
     (case get_default (config_data c) (lit ''extras'') (Table []) of
        Inl err \<Rightarrow> Inl err
      | Inr (Table extras) \<Rightarrow> Inr (map fst extras)
      | Inr _ \<Rightarrow> Inl AssertionError)"

definition Config_version :: "env \<Rightarrow> error + Version" where
  "Config_version e = poetry_version e"

definition is_compatible_with_group_deps :: "env \<Rightarrow> error + bool" where
  "is_compatible_with_group_deps e =
     (case Config_version e of
        Inl err \<Rightarrow> Inl err
      | Inr v \<Rightarrow> Inr (version_ge v MINIMUM_VERSION_SUPPORTING_GROUP_DEPS))"

section \<open>The command adapter: class \<open>Poetry\<close>\<close>

text \<open>
  The value that \<open>Session.run_always\<close> hands back: \<open>None\<close> when the command was
  skipped, the captured output when it ran silently, \<open>True\<close> otherwise.
\<close>

datatype pyval = PyNone | PyStr pystr | PyBool bool

text \<open>A call of \<open>run_always\<close>: the positional and the keyword arguments.\<close>

record call =
  args :: "pystr list"
  external :: bool
  silent :: bool
  stderr :: pyval

text \<open>
  The session is the execution context: how it answers a call (a value, or the
  exception it raises), and the calls it has received.
\<close>

record Session =
  respond :: "call \<Rightarrow> error + pyval"
  calls :: "call list"

definition run_always :: "Session \<Rightarrow> call \<Rightarrow> (error + pyval) \<times> Session" where
  "run_always s c = (respond s c, s\<lparr>calls := calls s @ [c]\<rparr>)"

datatype DistributionFormat = WHEEL | SDIST

fun format_value :: "DistributionFormat \<Rightarrow> pystr" where
  "format_value WHEEL = lit ''wheel''"
| "format_value SDIST = lit ''sdist''"

text \<open>\<open>DistributionFormat(s)\<close>: the member with that value, \<open>ValueError\<close> without one.\<close>

definition DistributionFormat_of :: "pystr \<Rightarrow> error + DistributionFormat" where
  "DistributionFormat_of s =
     (if s = format_value WHEEL then Inr WHEEL
      else if s = format_value SDIST then Inr SDIST
      else Inl (ValueError s))"

text \<open>The argument \<open>format\<close> of \<open>build\<close>: a plain string or a member of the enumeration.\<close>

datatype format_arg = Plain pystr | Member DistributionFormat

text \<open>The attribute \<open>_config\<close> of a \<open>Poetry\<close> is \<open>cached_config\<close>.\<close>

record Poetry =
  session :: Session
  cached_config :: "Config option"

definition Poetry_init :: "Session \<Rightarrow> Poetry" where
  "Poetry_init s = \<lparr>session = s, cached_config = None\<rparr>"

text \<open>
  An action of the adapter runs on the adapter and its surroundings and gives a value
  or an exception, and both as they are afterwards.
\<close>

type_synonym 'a action = "Poetry \<times> env \<Rightarrow> (error + 'a) \<times> Poetry \<times> env"

definition returns :: "'a \<Rightarrow> 'a action" where
  "returns x = (\<lambda>st. (Inr x, st))"

definition raise :: "error \<Rightarrow> 'a action" where
  "raise err = (\<lambda>st. (Inl err, st))"

definition and_then :: "'a action \<Rightarrow> ('a \<Rightarrow> 'b action) \<Rightarrow> 'b action" where
  "and_then m f = (\<lambda>st. case m st of (Inl err, st') \<Rightarrow> (Inl err, st') | (Inr x, st') \<Rightarrow> f x st')"

definition lift :: "error + 'a \<Rightarrow> 'a action" where
  "lift r = (case r of Inl err \<Rightarrow> raise err | Inr x \<Rightarrow> returns x)"

text \<open>The property \<open>Poetry.config\<close>.\<close>

definition config :: "Config action" where
  "config = (\<lambda>(p, e).
     case cached_config p of
       None \<Rightarrow>
         (case Config_init e of
            (Inl err, e') \<Rightarrow> (Inl err, p, e')
          | (Inr c, e') \<Rightarrow> (Inr c, p\<lparr>cached_config := Some c\<rparr>, e'))
     | Some c \<Rightarrow> (Inr c, p, e))"

text \<open>The call \<open>run_always(*a, external=True, silent=True, stderr=None)\<close>.\<close>

definition captured :: "pystr list \<Rightarrow> call" where
  "captured a = \<lparr>args = a, external = True, silent = True, stderr = PyNone\<rparr>"

text \<open>\<open>self.session.run_always(*args, external=True, silent=True, stderr=None)\<close>.\<close>

definition session_run_always :: "pystr list \<Rightarrow> pyval action" where
  "session_run_always a = (\<lambda>(p, e).
     let (r, s') = run_always (session p) (captured a)
     in (r, p\<lparr>session := s'\<rparr>, e))"

text \<open>\<open>print(line, file=sys.stderr)\<close> writes the line and a line feed.\<close>

definition print_stderr :: "pystr \<Rightarrow> unit action" where
  "print_stderr line = (\<lambda>(p, e). (Inr (), p, e\<lparr>sys_stderr := sys_stderr e @ line @ [0x0A]\<rparr>))"

text \<open>The generator \<open>_stripwarnings\<close>, run to its end by \<open>"".join\<close>.\<close>

fun stripwarnings :: "pystr list \<Rightarrow> pystr list action" where
  "stripwarnings [] = returns []"
| "stripwarnings (line # lines) =
     (if startswith line (lit ''Warning:'')
      then and_then (print_stderr line) (\<lambda>_. stripwarnings lines)
      else and_then (stripwarnings lines) (\<lambda>rest. returns (line # rest)))"

text \<open>Lines 111 to 117 of the source: the command line before the group selection.\<close>

definition base_args :: "pystr list \<Rightarrow> pystr list" where
  "base_args extras =
     [lit ''poetry'', lit ''export'', lit ''--format=requirements.txt'']
       @ map (\<lambda>extra. lit ''--extras='' @ extra) extras
       @ [lit ''--without-hashes'']"

text \<open>Lines 111 to 124 of the source: the command line of \<open>export\<close>.\<close>

definition export_args :: "pystr list option \<Rightarrow> pystr list action" where
  "export_args groups =
     and_then config (\<lambda>c.
     and_then (lift (Config_extras c)) (\<lambda>extras.
       let args = base_args extras
       in case groups of
            Some (g # gs) \<Rightarrow>
              returns (args @ map (\<lambda>group. lit ''--only='' @ group) (g # gs))
          | _ \<Rightarrow>
              and_then config (\<lambda>c'.
              and_then (\<lambda>(p, e). (is_compatible_with_group_deps e, p, e)) (\<lambda>compatible.
                if compatible then returns (args @ [lit ''--with=dev''])
                else returns (args @ [lit ''--dev''])))))"

definition export_skipped :: pystr where
  "export_skipped =
     lit ''The command `poetry export` was not executed''
       @ lit '' (a possible cause is specifying `--no-install`)''"

definition export :: "pystr list option \<Rightarrow> pystr action" where
  "export groups =
     and_then (export_args groups) (\<lambda>args.
     and_then (session_run_always args) (\<lambda>output.
       case output of
         PyNone \<Rightarrow> raise (CommandSkippedError export_skipped)
       | PyStr out \<Rightarrow>
           and_then (stripwarnings (splitlines_keepends out)) (\<lambda>kept. returns (concat kept))
       | PyBool _ \<Rightarrow> raise AssertionError))"

definition build_skipped :: pystr where
  "build_skipped =
     lit ''The command `poetry build` was not executed''
       @ lit '' (a possible cause is specifying `--no-install`)''"

text \<open>Lines 178 to 181 of the source: the command line of \<open>build\<close>.\<close>

definition build_args :: "DistributionFormat \<Rightarrow> pystr list" where
  "build_args format =
     [lit ''poetry'', lit ''build'', lit ''--format='' @ format_value format, lit ''--no-ansi'']"

definition build :: "format_arg \<Rightarrow> pystr action" where
  "build format =
     and_then (case format of
                 Member m \<Rightarrow> returns m
               | Plain s \<Rightarrow> lift (DistributionFormat_of s)) (\<lambda>format'.
     and_then (session_run_always (build_args format')) (\<lambda>output.
       case output of
         PyNone \<Rightarrow> raise (CommandSkippedError build_skipped)
       | PyStr out \<Rightarrow> lift (last_item (split out))
       | PyBool _ \<Rightarrow> raise AssertionError))"

section \<open>Example surroundings\<close>

text \<open>
  A manifest declaring the package \<open>foobar\<close> with the extras \<open>pygments\<close> and
  \<open>colors\<close>, a session that answers every command with the same value, and an
  environment with that manifest and a given installed version.
\<close>

definition example_manifest :: "(pystr \<times> toml) list" where
  "example_manifest =
     [(lit ''tool'',
       Table [(lit ''poetry'',
         Table [(lit ''name'', String (lit ''foobar'')),
                (lit ''version'', String (lit ''0.1.0'')),
                (lit ''extras'',
                 Table [(lit ''pygments'', Array [String (lit ''pygments'')]),
                        (lit ''colors'', Array [String (lit ''colorama'')])])])])]"

definition example_env :: "Version \<Rightarrow> env" where
  "example_env v =
     \<lparr>pyproject = Inr example_manifest, poetry_version = Inr v, sys_stderr = [],
      manifest_reads = 0\<rparr>"

definition example_session :: "error + pyval \<Rightarrow> Session" where
  "example_session r = \<lparr>respond = (\<lambda>c. r), calls = []\<rparr>"

definition example_config :: Config where
  "example_config =
     \<lparr>config_data =
        Table [(lit ''name'', String (lit ''foobar'')),
               (lit ''version'', String (lit ''0.1.0'')),
               (lit ''extras'',
                Table [(lit ''pygments'', Array [String (lit ''pygments'')]),
                       (lit ''colors'', Array [String (lit ''colorama'')])])]\<rparr>"

section \<open>Sequencing, the configuration cache and the built command lines\<close>

lemma Config_init_reads:
  "Config_init e = (r, e') \<Longrightarrow> e' = e\<lparr>manifest_reads := Suc (manifest_reads e)\<rparr>"
  by (auto simp: Config_init_def Let_def split: sum.splits)

lemma config_cached: "cached_config p = Some c \<Longrightarrow> config (p, e) = (Inr c, p, e)"
  by (simp add: config_def)

lemma config_fresh_Inr:
  assumes "cached_config p = None" and "config (p, e) = (Inr c, p', e')"
  shows "p' = p\<lparr>cached_config := Some c\<rparr> \<and> e' = e\<lparr>manifest_reads := Suc (manifest_reads e)\<rparr>
           \<and> Config_init e = (Inr c, e')"
  using assms
  by (auto simp: config_def split: prod.splits sum.splits dest: Config_init_reads)

lemma config_fresh_Inl:
  assumes "cached_config p = None" and "config (p, e) = (Inl err, p', e')"
  shows "p' = p \<and> e' = e\<lparr>manifest_reads := Suc (manifest_reads e)\<rparr>"
  using assms
  by (auto simp: config_def split: prod.splits sum.splits dest: Config_init_reads)

lemma config_Inr_cached:
  assumes "config (p, e) = (Inr c, p', e')"
  shows "cached_config p' = Some c \<and> session p' = session p
           \<and> poetry_version e' = poetry_version e \<and> sys_stderr e' = sys_stderr e"
  using assms
  by (auto simp: config_def split: option.splits prod.splits sum.splits
        dest: Config_init_reads)

lemma export_args_groups:
  assumes "config (p, e) = (Inr c, p', e')" and "Config_extras c = Inr extras"
  shows "export_args (Some (g # gs)) (p, e)
           = (Inr (base_args extras @ map (\<lambda>group. lit ''--only='' @ group) (g # gs)), p', e')"
  using assms by (simp add: export_args_def and_then_def lift_def returns_def)

lemma export_args_default:
  assumes "config (p, e) = (Inr c, p', e')" and "Config_extras c = Inr extras"
    and "groups = None \<or> groups = Some []" and "poetry_version e = Inr v"
  shows "export_args groups (p, e)
           = (Inr (base_args extras
                    @ [if version_ge v MINIMUM_VERSION_SUPPORTING_GROUP_DEPS
                       then lit ''--with=dev'' else lit ''--dev'']), p', e')"
proof -
  from config_Inr_cached [OF assms(1)]
  have c: "config (p', e') = (Inr c, p', e')" and v: "poetry_version e' = Inr v"
    using assms(4) by (simp_all add: config_cached)
  show ?thesis
    using assms(1,2,3) c v
    by (auto simp: export_args_def and_then_def lift_def returns_def Let_def
          is_compatible_with_group_deps_def Config_version_def)
qed

lemma stripwarnings_eq:
  "stripwarnings ls (p, e) =
     (Inr (filter (\<lambda>l. \<not> startswith l (lit ''Warning:'')) ls), p,
      e\<lparr>sys_stderr := sys_stderr e
           @ concat (map (\<lambda>l. l @ [0x0A]) (filter (\<lambda>l. startswith l (lit ''Warning:'')) ls))\<rparr>)"
proof (induction ls arbitrary: e)
  case Nil
  show ?case by (simp add: returns_def)
next
  case (Cons l ls)
  show ?case
  proof (cases "startswith l (lit ''Warning:'')")
    case True
    have "stripwarnings (l # ls) (p, e)
            = stripwarnings ls (p, e\<lparr>sys_stderr := sys_stderr e @ l @ [0x0A]\<rparr>)"
      using True by (simp add: and_then_def print_stderr_def)
    then show ?thesis using True by (simp add: Cons.IH)
  next
    case False
    then show ?thesis by (simp add: Cons.IH and_then_def returns_def)
  qed
qed

lemma concat_splitlines_from: "concat (splitlines_from cur s) = cur @ s"
  by (induction cur s rule: splitlines_from.induct) auto

lemma concat_splitlines: "concat (splitlines_keepends s) = s"
  by (simp add: splitlines_keepends_def concat_splitlines_from)

lemma config_frame:
  assumes "config (p, e) = (r, p1, e1)"
  shows "session p1 = session p \<and> sys_stderr e1 = sys_stderr e
           \<and> poetry_version e1 = poetry_version e"
  using assms
  by (auto simp: config_def split: option.splits prod.splits sum.splits
        dest: Config_init_reads)

lemma export_args_cached:
  assumes "cached_config p = Some c"
  shows "snd (export_args groups (p, e)) = (p, e)"
  using assms
  by (auto simp: export_args_def and_then_def lift_def returns_def raise_def Let_def
        config_cached split: sum.splits list.splits option.splits)

lemma export_args_frame:
  assumes "export_args groups (p, e) = (r, p1, e1)"
  shows "session p1 = session p \<and> sys_stderr e1 = sys_stderr e"
proof (cases "config (p, e)")
  case (fields r0 p0 e0)
  note f = config_frame [OF fields]
  show ?thesis
  proof (cases r0)
    case (Inl err)
    then show ?thesis using assms fields f by (simp add: export_args_def and_then_def)
  next
    case (Inr c)
    then have "cached_config p0 = Some c" using fields config_Inr_cached by blast
    then have c0: "\<And>e. config (p0, e) = (Inr c, p0, e)" by (simp add: config_cached)
    show ?thesis using assms fields f Inr c0
      by (auto simp: export_args_def and_then_def lift_def returns_def raise_def Let_def
            split: sum.splits list.splits option.splits if_splits)
  qed
qed

lemma session_run_always_eq:
  "session_run_always a (p, e)
     = (respond (session p) (captured a),
        p\<lparr>session := (session p)\<lparr>calls := calls (session p) @ [captured a]\<rparr>\<rparr>, e)"
  by (simp add: session_run_always_def run_always_def)

lemma export_after_args:
  assumes "export_args groups (p, e) = (Inr a, p1, e1)"
  shows "export groups (p, e) =
     (case respond (session p1) (captured a) of
        Inl err \<Rightarrow>
          (Inl err, p1\<lparr>session := (session p1)\<lparr>calls := calls (session p1) @ [captured a]\<rparr>\<rparr>, e1)
      | Inr PyNone \<Rightarrow>
          (Inl (CommandSkippedError export_skipped),
           p1\<lparr>session := (session p1)\<lparr>calls := calls (session p1) @ [captured a]\<rparr>\<rparr>, e1)
      | Inr (PyStr out) \<Rightarrow>
          (Inr (concat (filter (\<lambda>l. \<not> startswith l (lit ''Warning:''))
                          (splitlines_keepends out))),
           p1\<lparr>session := (session p1)\<lparr>calls := calls (session p1) @ [captured a]\<rparr>\<rparr>,
           e1\<lparr>sys_stderr := sys_stderr e1 @ concat (map (\<lambda>l. l @ [0x0A])
                 (filter (\<lambda>l. startswith l (lit ''Warning:'')) (splitlines_keepends out)))\<rparr>)
      | Inr (PyBool b) \<Rightarrow>
          (Inl AssertionError,
           p1\<lparr>session := (session p1)\<lparr>calls := calls (session p1) @ [captured a]\<rparr>\<rparr>, e1))"
  using assms
  by (simp add: export_def and_then_def session_run_always_eq raise_def returns_def
        stripwarnings_eq split: sum.splits pyval.splits)

lemma export_before_args:
  assumes "export_args groups (p, e) = (Inl err, p1, e1)"
  shows "export groups (p, e) = (Inl err, p1, e1)"
  using assms by (simp add: export_def and_then_def)

lemma export_calls:
  assumes "export_args groups (p, e) = (Inr a, p1, e1)"
  shows "calls (session (fst (snd (export groups (p, e))))) = calls (session p) @ [captured a]"
  using export_after_args [OF assms] export_args_frame [OF assms]
  by (simp split: sum.splits pyval.splits)

lemma export_cached:
  assumes "cached_config p = Some c" and "export groups (p, e) = (r, p2, e2)"
  shows "cached_config p2 = Some c \<and> manifest_reads e2 = manifest_reads e"
proof (cases "export_args groups (p, e)")
  case (fields r0 p0 e0)
  then have pe: "p0 = p" "e0 = e"
    using export_args_cached [OF assms(1), of groups e] by simp_all
  show ?thesis
  proof (cases r0)
    case (Inl err)
    then show ?thesis using export_before_args fields pe assms by fastforce
  next
    case (Inr a)
    then show ?thesis using export_after_args [of groups p e a p0 e0] fields pe assms
      by (auto split: sum.splits pyval.splits)
  qed
qed

lemma only_flag: "startswith (lit ''--only='' @ g) (lit ''--only='')"
  by (simp add: startswith_def lit_def)

lemma extras_flag_not_only: "\<not> startswith (lit ''--extras='' @ x) (lit ''--only='')"
  by (simp add: startswith_def lit_def)

lemma filter_only_base: "filter (\<lambda>x. startswith x (lit ''--only='')) (base_args extras) = []"
proof -
  have "filter (\<lambda>x. startswith x (lit ''--only=''))
          (map (\<lambda>extra. lit ''--extras='' @ extra) extras) = []"
    by (induction extras) (simp_all add: extras_flag_not_only)
  then show ?thesis
    by (simp add: base_args_def) (simp add: startswith_def lit_def)
qed

lemma filter_only_groups:
  "filter (\<lambda>x. startswith x (lit ''--only='')) (map (\<lambda>group. lit ''--only='' @ group) gs)
     = map (\<lambda>group. lit ''--only='' @ group) gs"
  by (induction gs) (simp_all add: only_flag)

lemma dev_not_in_base: "lit ''--dev'' \<notin> set (base_args extras)"
  by (auto simp: base_args_def lit_def)

lemma with_dev_not_in_base: "lit ''--with=dev'' \<notin> set (base_args extras)"
  by (auto simp: base_args_def lit_def)

lemma dev_not_only: "lit ''--dev'' \<notin> set (map (\<lambda>group. lit ''--only='' @ group) gs)"
  by (auto simp: lit_def)

lemma with_dev_not_only:
  "lit ''--with=dev'' \<notin> set (map (\<lambda>group. lit ''--only='' @ group) gs)"
  by (auto simp: lit_def)

lemma example_config_init:
  "config (Poetry_init s, example_env v)
     = (Inr example_config, (Poetry_init s)\<lparr>cached_config := Some example_config\<rparr>,
        (example_env v)\<lparr>manifest_reads := 1\<rparr>)"
  by (simp add: config_def Poetry_init_def Config_init_def example_env_def
        example_manifest_def example_config_def Let_def lit_def)

lemma example_config_extras:
  "Config_extras example_config = Inr [lit ''pygments'', lit ''colors'']"
  by (simp add: Config_extras_def example_config_def lit_def)

section \<open>The version threshold\<close>

lemma strip_Nil: "strip_trailing_zeros [] = []"
  by (simp add: strip_trailing_zeros_def)

lemma strip_Cons:
  "strip_trailing_zeros (x # xs)
     = (if x = 0 \<and> strip_trailing_zeros xs = [] then [] else x # strip_trailing_zeros xs)"
proof (cases "\<forall>y \<in> set xs. y = 0")
  case True
  then have "dropWhile (\<lambda>x. x = 0) (rev xs) = []" by simp
  then show ?thesis
    by (simp add: strip_trailing_zeros_def dropWhile_append)
next
  case False
  then have "dropWhile (\<lambda>x. x = 0) (rev xs) \<noteq> []" by (simp add: dropWhile_eq_Nil_conv)
  then show ?thesis
    by (simp add: strip_trailing_zeros_def dropWhile_append)
qed

lemma cmp_seq_Nil_left: "cmp_seq c [] ys = (if ys = [] then EQ else LT)"
  by (cases ys) simp_all

lemma cmp_seq_Nil_right: "cmp_seq c xs [] = (if xs = [] then EQ else GT)"
  by (cases xs) simp_all

lemma cmp_release:
  "cmp_seq cmp_nat (strip_trailing_zeros xs) (strip_trailing_zeros ys) = componentwise_cmp xs ys"
  by (induction xs ys rule: componentwise_cmp.induct)
     (auto simp: strip_Nil strip_Cons cmp_seq_Nil_left cmp_seq_Nil_right cmp_nat_def)

lemma version_ge_final_release:
  "version_ge v (final_release m)
     = (0 < epoch v \<or>
        (case componentwise_cmp (release v) m of
           GT \<Rightarrow> True
         | LT \<Rightarrow> False
         | EQ \<Rightarrow> pre v = None \<and> (post v \<noteq> None \<or> dev v = None)))"
  unfolding version_ge_def cmp_key_def cmpkey_def final_release_def
  by (cases "componentwise_cmp (release v) m"; cases "pre v"; cases "post v";
      cases "dev v"; cases "local_label v")
     (simp_all add: cmp_pair_def cmp_nat_def cmp_release)

text \<open>
  C2: with the installed version \<open>v\<close>, \<open>is_compatible_with_group_deps\<close> returns whether
  \<open>v >= 1.2.0\<close> in the precedence order of versions: true with a later epoch; otherwise
  decided by the release numbers compared component by component against 1.2.0; and when
  these are equal, true unless \<open>v\<close> is a pre-release or a development release of 1.2.0.
  For a final release the answer is the component-wise comparison alone.
\<close>

theorem supports_dependency_groups:
  assumes "poetry_version e = Inr v"
  shows "is_compatible_with_group_deps e
           = Inr (0 < epoch v \<or>
                  (case componentwise_cmp (release v) [1, 2, 0] of
                     GT \<Rightarrow> True
                   | LT \<Rightarrow> False
                   | EQ \<Rightarrow> pre v = None \<and> (post v \<noteq> None \<or> dev v = None)))
         \<and> (epoch v = 0 \<and> pre v = None \<and> post v = None \<and> dev v = None \<longrightarrow>
              is_compatible_with_group_deps e
                = Inr (componentwise_cmp (release v) [1, 2, 0] \<noteq> LT))"
proof -
  have "is_compatible_with_group_deps e = Inr (version_ge v (final_release [1, 2, 0]))"
    using assms
    by (simp add: is_compatible_with_group_deps_def Config_version_def
          MINIMUM_VERSION_SUPPORTING_GROUP_DEPS_def)
  then show ?thesis
    unfolding version_ge_final_release
    by (cases "componentwise_cmp (release v) [1, 2, 0]") simp_all
qed

text \<open>
  The versions 1.1.9, 1.2.0, 1.2.1 and 1.3.0-alpha of the spec, and 1.10.0, which is
  below 1.2.0 as a string.
\<close>

theorem supports_dependency_groups_witness:
  "is_compatible_with_group_deps (example_env (final_release [1, 1, 9])) = Inr False
   \<and> is_compatible_with_group_deps (example_env (final_release [1, 2, 0])) = Inr True
   \<and> is_compatible_with_group_deps (example_env (final_release [1, 2, 1])) = Inr True
   \<and> is_compatible_with_group_deps
        (example_env ((final_release [1, 3, 0])\<lparr>pre := Some (lit ''a'', 0)\<rparr>)) = Inr True
   \<and> is_compatible_with_group_deps
        (example_env ((final_release [1, 2, 0])\<lparr>pre := Some (lit ''a'', 0)\<rparr>)) = Inr False
   \<and> is_compatible_with_group_deps (example_env (final_release [1, 10, 0])) = Inr True
   \<and> cmp_str (lit ''1.10.0'') (lit ''1.2.0'') = LT"
proof -
  have v: "\<And>v. poetry_version (example_env v) = Inr v"
    by (simp add: example_env_def)
  have s: "cmp_str (lit ''1.10.0'') (lit ''1.2.0'') = LT"
    by (simp add: cmp_str_def lit_def cmp_nat_def)
  show ?thesis
    using supports_dependency_groups [OF v, of "final_release [1, 1, 9]"]
      supports_dependency_groups [OF v, of "final_release [1, 2, 0]"]
      supports_dependency_groups [OF v, of "final_release [1, 2, 1]"]
      supports_dependency_groups [OF v, of "(final_release [1, 3, 0])\<lparr>pre := Some (lit ''a'', 0)\<rparr>"]
      supports_dependency_groups [OF v, of "(final_release [1, 2, 0])\<lparr>pre := Some (lit ''a'', 0)\<rparr>"]
      supports_dependency_groups [OF v, of "final_release [1, 10, 0]"]
      s
    by (simp add: final_release_def)
qed

section \<open>The command line of \<open>export\<close>\<close>

text \<open>
  C1: with the configuration and its extras at hand, a call of \<open>export\<close> with a
  non-empty list of groups builds a command line whose \<open>--only=\<close> flags are those of
  the groups, one for each and in their order, and which holds neither \<open>--dev\<close> nor
  \<open>--with=dev\<close>; without groups, or with an empty list, the command line ends with
  \<open>--with=dev\<close> when the installed version is at least 1.2.0 and with \<open>--dev\<close> when it
  is below.
\<close>

theorem export_group_selection:
  assumes "config (p, e) = (Inr c, p', e')" and "Config_extras c = Inr extras"
  shows "(groups = Some gs \<and> gs \<noteq> [] \<longrightarrow>
            (\<exists>a. fst (export_args groups (p, e)) = Inr a
               \<and> filter (\<lambda>x. startswith x (lit ''--only='')) a
                   = map (\<lambda>group. lit ''--only='' @ group) gs
               \<and> lit ''--dev'' \<notin> set a \<and> lit ''--with=dev'' \<notin> set a))
       \<and> ((groups = None \<or> groups = Some []) \<and> poetry_version e = Inr v
            \<and> version_ge v (final_release [1, 2, 0]) \<longrightarrow>
            (\<exists>a. fst (export_args groups (p, e)) = Inr a \<and> last a = lit ''--with=dev''))
       \<and> ((groups = None \<or> groups = Some []) \<and> poetry_version e = Inr v
            \<and> \<not> version_ge v (final_release [1, 2, 0]) \<longrightarrow>
            (\<exists>a. fst (export_args groups (p, e)) = Inr a \<and> last a = lit ''--dev''))"
proof (intro conjI impI)
  assume g: "groups = Some gs \<and> gs \<noteq> []"
  then obtain g' gs' where gs: "gs = g' # gs'" by (cases gs) auto
  have "fst (export_args groups (p, e))
          = Inr (base_args extras @ map (\<lambda>group. lit ''--only='' @ group) gs)"
    using g gs export_args_groups [OF assms, of g' gs'] by simp
  then show "\<exists>a. fst (export_args groups (p, e)) = Inr a
               \<and> filter (\<lambda>x. startswith x (lit ''--only='')) a
                   = map (\<lambda>group. lit ''--only='' @ group) gs
               \<and> lit ''--dev'' \<notin> set a \<and> lit ''--with=dev'' \<notin> set a"
    using dev_not_in_base [of extras] with_dev_not_in_base [of extras]
      dev_not_only [of gs] with_dev_not_only [of gs]
    by (simp add: filter_only_base filter_only_groups)
next
  assume h: "(groups = None \<or> groups = Some []) \<and> poetry_version e = Inr v
               \<and> version_ge v (final_release [1, 2, 0])"
  then show "\<exists>a. fst (export_args groups (p, e)) = Inr a \<and> last a = lit ''--with=dev''"
    using export_args_default [OF assms, of groups v]
    by (simp add: MINIMUM_VERSION_SUPPORTING_GROUP_DEPS_def)
next
  assume h: "(groups = None \<or> groups = Some []) \<and> poetry_version e = Inr v
               \<and> \<not> version_ge v (final_release [1, 2, 0])"
  then show "\<exists>a. fst (export_args groups (p, e)) = Inr a \<and> last a = lit ''--dev''"
    using export_args_default [OF assms, of groups v]
    by (simp add: MINIMUM_VERSION_SUPPORTING_GROUP_DEPS_def)
qed

text \<open>
  \<open>export(["a", "b"])\<close> with version 1.1.9 installed, \<open>export(None)\<close> with 1.2.0
  and \<open>export([])\<close> with 1.1.9, on the example manifest.
\<close>

theorem export_group_selection_witness:
  "(\<exists>a. fst (export_args (Some [lit ''a'', lit ''b''])
              (Poetry_init (example_session (Inr PyNone)),
               example_env (final_release [1, 1, 9]))) = Inr a
      \<and> filter (\<lambda>x. startswith x (lit ''--only='')) a
           = [lit ''--only='' @ lit ''a'', lit ''--only='' @ lit ''b'']
      \<and> lit ''--dev'' \<notin> set a \<and> lit ''--with=dev'' \<notin> set a)
   \<and> (\<exists>a. fst (export_args None
              (Poetry_init (example_session (Inr PyNone)),
               example_env (final_release [1, 2, 0]))) = Inr a
      \<and> last a = lit ''--with=dev'')
   \<and> (\<exists>a. fst (export_args (Some [])
              (Poetry_init (example_session (Inr PyNone)),
               example_env (final_release [1, 1, 9]))) = Inr a
      \<and> last a = lit ''--dev'')"
proof -
  have old: "\<not> version_ge (final_release [1, 1, 9]) (final_release [1, 2, 0])"
    unfolding version_ge_final_release by (simp add: final_release_def)
  have new: "version_ge (final_release [1, 2, 0]) (final_release [1, 2, 0])"
    unfolding version_ge_final_release by (simp add: final_release_def)
  have v: "\<And>v. poetry_version (example_env v) = Inr v"
    by (simp add: example_env_def)
  note t = export_group_selection [OF example_config_init example_config_extras]
  have 1: "\<exists>a. fst (export_args (Some [lit ''a'', lit ''b''])
              (Poetry_init (example_session (Inr PyNone)),
               example_env (final_release [1, 1, 9]))) = Inr a
      \<and> filter (\<lambda>x. startswith x (lit ''--only='')) a
           = [lit ''--only='' @ lit ''a'', lit ''--only='' @ lit ''b'']
      \<and> lit ''--dev'' \<notin> set a \<and> lit ''--with=dev'' \<notin> set a"
    using t [of "Some [lit ''a'', lit ''b'']" "[lit ''a'', lit ''b'']"
               "example_session (Inr PyNone)" "final_release [1, 1, 9]"]
    by simp
  have 2: "\<exists>a. fst (export_args None
              (Poetry_init (example_session (Inr PyNone)),
               example_env (final_release [1, 2, 0]))) = Inr a
      \<and> last a = lit ''--with=dev''"
    using t [of None "[]" "example_session (Inr PyNone)" "final_release [1, 2, 0]"
               "final_release [1, 2, 0]"] new v
    by simp
  have 3: "\<exists>a. fst (export_args (Some [])
              (Poetry_init (example_session (Inr PyNone)),
               example_env (final_release [1, 1, 9]))) = Inr a
      \<and> last a = lit ''--dev''"
    using t [of "Some []" "[]" "example_session (Inr PyNone)" "final_release [1, 1, 9]"
               "final_release [1, 1, 9]"] old v
    by simp
  show ?thesis using 1 2 3 by blast
qed

text \<open>
  C7: with the configuration and its extras at hand, and the installed version known
  where no group is named, \<open>export\<close> builds the command line \<open>poetry export
  --format=requirements.txt\<close>, then one \<open>--extras=\<close> flag for each extra in the order
  of the extras, then \<open>--without-hashes\<close>, and only then the group selection; this
  command line is what the session is called with.
\<close>

theorem export_command_line:
  assumes "config (p, e) = (Inr c, p', e')" and "Config_extras c = Inr extras"
    and "(\<exists>g gs. groups = Some (g # gs)) \<or> (\<exists>v. poetry_version e = Inr v)"
  shows "\<exists>selection.
           fst (export_args groups (p, e))
             = Inr ([lit ''poetry'', lit ''export'', lit ''--format=requirements.txt'']
                    @ map (\<lambda>extra. lit ''--extras='' @ extra) extras
                    @ [lit ''--without-hashes''] @ selection)
         \<and> (selection = map (\<lambda>group. lit ''--only='' @ group)
                           (case groups of None \<Rightarrow> [] | Some gs \<Rightarrow> gs)
              \<or> selection = [lit ''--with=dev''] \<or> selection = [lit ''--dev''])
         \<and> selection \<noteq> []
         \<and> calls (session (fst (snd (export groups (p, e)))))
             = calls (session p)
               @ [captured ([lit ''poetry'', lit ''export'', lit ''--format=requirements.txt'']
                    @ map (\<lambda>extra. lit ''--extras='' @ extra) extras
                    @ [lit ''--without-hashes''] @ selection)]"
proof -
  have "\<exists>selection. export_args groups (p, e) = (Inr (base_args extras @ selection), p', e')
          \<and> (selection = map (\<lambda>group. lit ''--only='' @ group)
                            (case groups of None \<Rightarrow> [] | Some gs \<Rightarrow> gs)
               \<or> selection = [lit ''--with=dev''] \<or> selection = [lit ''--dev''])
          \<and> selection \<noteq> []"
  proof (cases "\<exists>g gs. groups = Some (g # gs)")
    case True
    then obtain g gs where "groups = Some (g # gs)" by blast
    then show ?thesis using export_args_groups [OF assms(1,2), of g gs] by simp
  next
    case False
    have none: "groups = None \<or> groups = Some []"
    proof (cases groups)
      case None
      then show ?thesis by simp
    next
      case (Some a)
      then show ?thesis using False by (cases a) auto
    qed
    from False assms(3) obtain v where "poetry_version e = Inr v" by blast
    then show ?thesis using export_args_default [OF assms(1,2) none] by simp
  qed
  then obtain selection where
    a: "export_args groups (p, e) = (Inr (base_args extras @ selection), p', e')"
    and s: "selection = map (\<lambda>group. lit ''--only='' @ group)
                            (case groups of None \<Rightarrow> [] | Some gs \<Rightarrow> gs)
               \<or> selection = [lit ''--with=dev''] \<or> selection = [lit ''--dev'']"
       "selection \<noteq> []"
    by blast
  show ?thesis
    using a s export_calls [OF a] by (intro exI [of _ selection]) (simp add: base_args_def)
qed

theorem export_command_line_witness:
  "\<exists>selection.
     fst (export_args (Some [lit ''test'', lit ''lint''])
            (Poetry_init (example_session (Inr PyNone)),
             example_env (final_release [1, 2, 1])))
       = Inr ([lit ''poetry'', lit ''export'', lit ''--format=requirements.txt'']
              @ [lit ''--extras='' @ lit ''pygments'', lit ''--extras='' @ lit ''colors'']
              @ [lit ''--without-hashes''] @ selection)
     \<and> selection = [lit ''--only='' @ lit ''test'', lit ''--only='' @ lit ''lint'']
     \<and> calls (session (fst (snd (export (Some [lit ''test'', lit ''lint''])
            (Poetry_init (example_session (Inr PyNone)),
             example_env (final_release [1, 2, 1]))))))
         = [captured ([lit ''poetry'', lit ''export'', lit ''--format=requirements.txt'']
              @ [lit ''--extras='' @ lit ''pygments'', lit ''--extras='' @ lit ''colors'']
              @ [lit ''--without-hashes''] @ selection)]"
proof -
  have g: "(\<exists>g gs. Some [lit ''test'', lit ''lint''] = Some (g # gs))
             \<or> (\<exists>v. poetry_version (example_env (final_release [1, 2, 1])) = Inr v)"
    by simp
  have a: "fst (export_args (Some [lit ''test'', lit ''lint''])
            (Poetry_init (example_session (Inr PyNone)),
             example_env (final_release [1, 2, 1])))
          = Inr ([lit ''poetry'', lit ''export'', lit ''--format=requirements.txt'']
              @ [lit ''--extras='' @ lit ''pygments'', lit ''--extras='' @ lit ''colors'']
              @ [lit ''--without-hashes'']
              @ [lit ''--only='' @ lit ''test'', lit ''--only='' @ lit ''lint''])"
    using export_args_groups [OF example_config_init example_config_extras]
    by (simp add: base_args_def)
  from export_command_line [OF example_config_init example_config_extras g,
      of "example_session (Inr PyNone)"]
  obtain selection where
    s: "fst (export_args (Some [lit ''test'', lit ''lint''])
            (Poetry_init (example_session (Inr PyNone)),
             example_env (final_release [1, 2, 1])))
          = Inr ([lit ''poetry'', lit ''export'', lit ''--format=requirements.txt'']
              @ map (\<lambda>extra. lit ''--extras='' @ extra) [lit ''pygments'', lit ''colors'']
              @ [lit ''--without-hashes''] @ selection)"
    and c: "calls (session (fst (snd (export (Some [lit ''test'', lit ''lint''])
            (Poetry_init (example_session (Inr PyNone)),
             example_env (final_release [1, 2, 1]))))))
         = calls (session (Poetry_init (example_session (Inr PyNone))))
           @ [captured ([lit ''poetry'', lit ''export'', lit ''--format=requirements.txt'']
              @ map (\<lambda>extra. lit ''--extras='' @ extra) [lit ''pygments'', lit ''colors'']
              @ [lit ''--without-hashes''] @ selection)]"
    by blast
  from s a have "selection = [lit ''--only='' @ lit ''test'', lit ''--only='' @ lit ''lint'']"
    by simp
  then show ?thesis
    using s c by (simp add: Poetry_init_def example_session_def)
qed

section \<open>The captured output of \<open>export\<close>\<close>

lemma splitlines_from_shape:
  assumes "\<forall>c \<in> set cur. \<not> is_linebreak c" and "l \<in> set (splitlines_from cur s)"
  shows "l \<noteq> [] \<and> (\<exists>body end. l = body @ end \<and> (\<forall>c \<in> set body. \<not> is_linebreak c)
           \<and> (end = [] \<or> end = [0x0D, 0x0A] \<or> (\<exists>c. is_linebreak c \<and> end = [c])))"
  using assms
proof (induction cur s rule: splitlines_from.induct)
  case (1 cur)
  then have "l = cur" "cur \<noteq> []" by (auto split: if_splits)
  then show ?case using 1 by (intro conjI exI [of _ cur] exI [of _ "[]"]) auto
next
  case (2 cur c)
  then have l: "l = cur @ [c]" by simp
  show ?case
  proof (cases "is_linebreak c")
    case True
    then show ?thesis using 2 l by (intro conjI exI [of _ cur] exI [of _ "[c]"]) auto
  next
    case False
    then show ?thesis using 2 l by (intro conjI exI [of _ "cur @ [c]"] exI [of _ "[]"]) auto
  qed
next
  case (3 cur c d s)
  show ?case
  proof (cases "c = 0x0D \<and> d = 0x0A")
    case True
    then consider "l = cur @ [c, d]" | "l \<in> set (splitlines_from [] s)" using 3(5) by auto
    then show ?thesis
    proof cases
      case 1
      then show ?thesis using True 3(4)
        by (intro conjI exI [of _ cur] exI [of _ "[c, d]"]) auto
    next
      case 2
      then show ?thesis using 3(1) True by simp
    qed
  next
    case nocrlf: False
    show ?thesis
    proof (cases "is_linebreak c")
      case True
      then consider "l = cur @ [c]" | "l \<in> set (splitlines_from [] (d # s))"
        using 3(5) nocrlf by auto
      then show ?thesis
      proof cases
        case 1
        then show ?thesis using True 3(4)
          by (intro conjI exI [of _ cur] exI [of _ "[c]"]) auto
      next
        case 2
        then show ?thesis using 3(2) True nocrlf by simp
      qed
    next
      case False
      then have "l \<in> set (splitlines_from (cur @ [c]) (d # s))" using 3(5) nocrlf by auto
      then show ?thesis using 3(3) [OF nocrlf False] False 3(4) by simp
    qed
  qed
qed

lemma splitlines_shape:
  "l \<in> set (splitlines_keepends s) \<Longrightarrow>
     l \<noteq> [] \<and> (\<exists>body end. l = body @ end \<and> (\<forall>c \<in> set body. \<not> is_linebreak c)
           \<and> (end = [] \<or> end = [0x0D, 0x0A] \<or> (\<exists>c. is_linebreak c \<and> end = [c])))"
  using splitlines_from_shape [of "[]" l s] by (simp add: splitlines_keepends_def)

text \<open>
  C3: when the command has run and the session hands back the text \<open>out\<close>, \<open>export\<close>
  returns the lines of \<open>out\<close> that do not start with \<open>Warning:\<close>, joined in their
  order; the lines that do start with it are printed to \<open>sys.stderr\<close> in their order,
  each as it is (\<open>print\<close> ends each with a line feed of its own); the lines keep
  their terminators, so joined they are \<open>out\<close>, and each line is a non-empty text
  without line boundary that ends with at most one line boundary.
\<close>

theorem export_strips_warnings:
  assumes "export_args groups (p, e) = (Inr a, p1, e1)"
    and "respond (session p) (captured a) = Inr (PyStr out)"
  shows "fst (export groups (p, e))
           = Inr (concat (filter (\<lambda>l. \<not> startswith l (lit ''Warning:''))
                            (splitlines_keepends out)))
         \<and> sys_stderr (snd (snd (export groups (p, e))))
             = sys_stderr e
               @ concat (map (\<lambda>l. l @ [0x0A])
                           (filter (\<lambda>l. startswith l (lit ''Warning:''))
                              (splitlines_keepends out)))
         \<and> concat (splitlines_keepends out) = out
         \<and> (\<forall>l \<in> set (splitlines_keepends out).
               l \<noteq> [] \<and> (\<exists>body end. l = body @ end \<and> (\<forall>c \<in> set body. \<not> is_linebreak c)
                 \<and> (end = [] \<or> end = [0x0D, 0x0A] \<or> (\<exists>c. is_linebreak c \<and> end = [c]))))"
proof (intro conjI ballI)
  show "fst (export groups (p, e))
           = Inr (concat (filter (\<lambda>l. \<not> startswith l (lit ''Warning:''))
                            (splitlines_keepends out)))"
    using export_after_args [OF assms(1)] export_args_frame [OF assms(1)] assms(2) by simp
  show "sys_stderr (snd (snd (export groups (p, e))))
             = sys_stderr e
               @ concat (map (\<lambda>l. l @ [0x0A])
                           (filter (\<lambda>l. startswith l (lit ''Warning:''))
                              (splitlines_keepends out)))"
    using export_after_args [OF assms(1)] export_args_frame [OF assms(1)] assms(2) by simp
  show "concat (splitlines_keepends out) = out" by (rule concat_splitlines)
next
  fix l assume "l \<in> set (splitlines_keepends out)"
  then show "l \<noteq> []"
    and "\<exists>body end. l = body @ end \<and> (\<forall>c \<in> set body. \<not> is_linebreak c)
           \<and> (end = [] \<or> end = [0x0D, 0x0A] \<or> (\<exists>c. is_linebreak c \<and> end = [c]))"
    using splitlines_shape [of l out] by simp_all
qed

lemma example_export_args_default:
  "export_args None (Poetry_init s, example_env (final_release [1, 2, 0]))
     = (Inr (base_args [lit ''pygments'', lit ''colors''] @ [lit ''--with=dev'']),
        (Poetry_init s)\<lparr>cached_config := Some example_config\<rparr>,
        (example_env (final_release [1, 2, 0]))\<lparr>manifest_reads := 1\<rparr>)"
proof -
  have v: "poetry_version (example_env (final_release [1, 2, 0])) = Inr (final_release [1, 2, 0])"
    by (simp add: example_env_def)
  have n: "version_ge (final_release [1, 2, 0]) MINIMUM_VERSION_SUPPORTING_GROUP_DEPS"
    unfolding MINIMUM_VERSION_SUPPORTING_GROUP_DEPS_def version_ge_final_release
    by (simp add: final_release_def)
  show ?thesis
    using export_args_default [OF example_config_init example_config_extras _ v, of None s] n
    by simp
qed

theorem export_strips_warnings_witness:
  "fst (export None
          (Poetry_init (example_session
             (Inr (PyStr (lit ''foo==1.0\<newline>Warning: old lock file\<newline>bar==2.1'')))),
           example_env (final_release [1, 2, 0])))
     = Inr (lit ''foo==1.0\<newline>bar==2.1'')
   \<and> sys_stderr (snd (snd (export None
          (Poetry_init (example_session
             (Inr (PyStr (lit ''foo==1.0\<newline>Warning: old lock file\<newline>bar==2.1'')))),
           example_env (final_release [1, 2, 0])))))
     = lit ''Warning: old lock file\<newline>\<newline>''"
proof -
  have r: "respond (session (Poetry_init (example_session
             (Inr (PyStr (lit ''foo==1.0\<newline>Warning: old lock file\<newline>bar==2.1''))))))
             (captured (base_args [lit ''pygments'', lit ''colors''] @ [lit ''--with=dev'']))
           = Inr (PyStr (lit ''foo==1.0\<newline>Warning: old lock file\<newline>bar==2.1''))"
    by (simp add: Poetry_init_def example_session_def)
  have l: "splitlines_keepends (lit ''foo==1.0\<newline>Warning: old lock file\<newline>bar==2.1'')
             = [lit ''foo==1.0\<newline>'', lit ''Warning: old lock file\<newline>'', lit ''bar==2.1'']"
    by (simp add: splitlines_keepends_def lit_def is_linebreak_def)
  have w: "\<not> startswith (lit ''foo==1.0\<newline>'') (lit ''Warning:'')"
          "startswith (lit ''Warning: old lock file\<newline>'') (lit ''Warning:'')"
          "\<not> startswith (lit ''bar==2.1'') (lit ''Warning:'')"
    by (simp_all add: startswith_def lit_def)
  note t = export_strips_warnings [OF example_export_args_default r]
  show ?thesis
    using t [THEN conjunct1] t [THEN conjunct2, THEN conjunct1]
    by (simp add: l w) (simp add: example_env_def lit_def)
qed

section \<open>The command \<open>build\<close>\<close>

lemma build_member:
  "build (Member f) (p, e) =
     (case respond (session p) (captured (build_args f)) of
        Inl err \<Rightarrow> Inl err
      | Inr PyNone \<Rightarrow> Inl (CommandSkippedError build_skipped)
      | Inr (PyStr out) \<Rightarrow> last_item (split out)
      | Inr (PyBool b) \<Rightarrow> Inl AssertionError,
      p\<lparr>session := (session p)\<lparr>calls := calls (session p) @ [captured (build_args f)]\<rparr>\<rparr>,
      e)"
  by (simp add: build_def and_then_def returns_def raise_def lift_def session_run_always_eq
        split: sum.splits pyval.splits)

lemma build_plain_valid: "build (Plain (format_value f)) = build (Member f)"
  by (cases f) (simp_all add: build_def DistributionFormat_of_def lift_def lit_def)

lemma build_plain_invalid:
  "s \<noteq> lit ''wheel'' \<Longrightarrow> s \<noteq> lit ''sdist''
     \<Longrightarrow> build (Plain s) (p, e) = (Inl (ValueError s), p, e)"
  by (simp add: build_def DistributionFormat_of_def lift_def raise_def and_then_def)

lemma split_from_token:
  "\<forall>c \<in> set t. \<not> isspace c \<Longrightarrow> split_from cur (t @ s) = split_from (cur @ t) s"
  by (induction t arbitrary: cur) simp_all

lemma split_from_spaces:
  "\<forall>c \<in> set s. isspace c \<Longrightarrow> split_from cur s = (if cur = [] then [] else [cur])"
  by (induction s arbitrary: cur) simp_all

lemma split_from_Nil_iff:
  "split_from cur s = [] \<longleftrightarrow> cur = [] \<and> (\<forall>c \<in> set s. isspace c)"
  by (induction s arbitrary: cur) auto

lemma split_from_after_space:
  "isspace c \<Longrightarrow> split_from cur (xs @ c # rest) = split_from cur (xs @ [c]) @ split_from [] rest"
  by (induction xs arbitrary: cur) auto

lemma split_last_token:
  assumes "tok \<noteq> []" and "\<forall>c \<in> set tok. \<not> isspace c" and "\<forall>c \<in> set trail. isspace c"
    and "before = [] \<or> isspace (last before)"
  shows "split (before @ tok @ trail) \<noteq> [] \<and> last (split (before @ tok @ trail)) = tok"
proof -
  have t: "split_from [] (tok @ trail) = [tok]"
    using assms(1,2,3) by (simp add: split_from_token split_from_spaces)
  show ?thesis
  proof (cases "before = []")
    case True
    then show ?thesis by (simp add: split_def t)
  next
    case False
    then obtain xs c where b: "before = xs @ [c]" and c: "isspace c"
      using assms(4) by (metis append_butlast_last_id)
    have "split_from [] (before @ tok @ trail)
            = split_from [] (xs @ [c]) @ split_from [] (tok @ trail)"
      using split_from_after_space [OF c, of "[]" xs "tok @ trail"] by (simp add: b)
    then show ?thesis by (simp add: split_def t)
  qed
qed

lemma split_Nil_iff: "split s = [] \<longleftrightarrow> (\<forall>c \<in> set s. isspace c)"
  by (simp add: split_def split_from_Nil_iff)

lemma contains_export_skipped:
  "contains export_skipped (lit ''poetry export'')"
  "contains export_skipped (lit ''a possible cause is specifying `--no-install`'')"
  by (simp_all add: export_skipped_def lit_def startswith_def)

lemma contains_build_skipped:
  "contains build_skipped (lit ''poetry build'')"
  "contains build_skipped (lit ''a possible cause is specifying `--no-install`'')"
  by (simp_all add: build_skipped_def lit_def startswith_def)

text \<open>
  C4: when the session hands back \<open>None\<close> for the command line of \<open>export\<close>, or for
  that of \<open>build\<close> with a valid format, the call raises \<open>CommandSkippedError\<close> and
  returns nothing; the message names \<open>poetry export\<close> or \<open>poetry build\<close> and gives
  \<open>--no-install\<close> as a possible cause.
\<close>

theorem skipped_command_raises:
  "(export_args groups (p, e) = (Inr a, p1, e1)
      \<and> respond (session p) (captured a) = Inr PyNone \<longrightarrow>
      fst (export groups (p, e)) = Inl (CommandSkippedError export_skipped))
   \<and> ((format = Member f \<or> format = Plain (format_value f))
      \<and> respond (session p) (captured (build_args f)) = Inr PyNone \<longrightarrow>
      fst (build format (p, e)) = Inl (CommandSkippedError build_skipped))
   \<and> contains export_skipped (lit ''poetry export'')
   \<and> contains export_skipped (lit ''a possible cause is specifying `--no-install`'')
   \<and> contains build_skipped (lit ''poetry build'')
   \<and> contains build_skipped (lit ''a possible cause is specifying `--no-install`'')"
proof (intro conjI impI)
  assume h: "export_args groups (p, e) = (Inr a, p1, e1)
               \<and> respond (session p) (captured a) = Inr PyNone"
  then have a: "export_args groups (p, e) = (Inr a, p1, e1)" by simp
  show "fst (export groups (p, e)) = Inl (CommandSkippedError export_skipped)"
    using export_after_args [OF a] export_args_frame [OF a] h by simp
next
  assume h: "(format = Member f \<or> format = Plain (format_value f))
               \<and> respond (session p) (captured (build_args f)) = Inr PyNone"
  then have "build format (p, e) = build (Member f) (p, e)"
    by (auto simp: build_plain_valid)
  then show "fst (build format (p, e)) = Inl (CommandSkippedError build_skipped)"
    using h by (simp add: build_member)
qed (rule contains_export_skipped contains_build_skipped)+

theorem skipped_command_raises_witness:
  "fst (export None (Poetry_init (example_session (Inr PyNone)),
                     example_env (final_release [1, 2, 0])))
     = Inl (CommandSkippedError
              (lit ''The command `poetry export` was not executed (a possible cause is specifying `--no-install`)''))
   \<and> fst (build (Plain (lit ''wheel'')) (Poetry_init (example_session (Inr PyNone)),
                     example_env (final_release [1, 2, 0])))
     = Inl (CommandSkippedError
              (lit ''The command `poetry build` was not executed (a possible cause is specifying `--no-install`)''))"
proof -
  have r: "\<And>a. respond (session (Poetry_init (example_session (Inr PyNone)))) (captured a)
                 = Inr PyNone"
    by (simp add: Poetry_init_def example_session_def)
  have f: "Plain (lit ''wheel'') = Member WHEEL \<or> Plain (lit ''wheel'') = Plain (format_value WHEEL)"
    by simp
  from skipped_command_raises
         [of None "Poetry_init (example_session (Inr PyNone))"
             "example_env (final_release [1, 2, 0])"
             "base_args [lit ''pygments'', lit ''colors''] @ [lit ''--with=dev'']"
             "(Poetry_init (example_session (Inr PyNone)))\<lparr>cached_config := Some example_config\<rparr>"
             "(example_env (final_release [1, 2, 0]))\<lparr>manifest_reads := 1\<rparr>"
             "Plain (lit ''wheel'')" WHEEL]
  show ?thesis
    using example_export_args_default r f
    by (simp add: export_skipped_def build_skipped_def lit_def)
qed

text \<open>
  C5: a plain string other than \<open>wheel\<close> and \<open>sdist\<close> as format makes \<open>build\<close> raise
  the \<open>ValueError\<close> of the enumeration with the adapter and its surroundings as they
  were, so the session has received no call; \<open>wheel\<close> and \<open>sdist\<close> are members of the
  enumeration, and the session is called once, with \<open>--format=\<close> and that value in the
  command line.
\<close>

theorem build_format_checked:
  "(s \<noteq> lit ''wheel'' \<and> s \<noteq> lit ''sdist'' \<longrightarrow>
      build (Plain s) (p, e) = (Inl (ValueError s), p, e))
   \<and> (s = lit ''wheel'' \<or> s = lit ''sdist'' \<longrightarrow>
      (\<exists>f. DistributionFormat_of s = Inr f \<and> format_value f = s)
      \<and> calls (session (fst (snd (build (Plain s) (p, e)))))
          = calls (session p)
            @ [captured [lit ''poetry'', lit ''build'', lit ''--format='' @ s, lit ''--no-ansi'']])"
proof (intro conjI impI)
  assume "s \<noteq> lit ''wheel'' \<and> s \<noteq> lit ''sdist''"
  then show "build (Plain s) (p, e) = (Inl (ValueError s), p, e)"
    by (simp add: build_plain_invalid)
next
  assume "s = lit ''wheel'' \<or> s = lit ''sdist''"
  then show "\<exists>f. DistributionFormat_of s = Inr f \<and> format_value f = s"
    by (auto simp: DistributionFormat_of_def lit_def)
next
  assume "s = lit ''wheel'' \<or> s = lit ''sdist''"
  then obtain f where f: "s = format_value f"
    by (metis format_value.simps)
  show "calls (session (fst (snd (build (Plain s) (p, e)))))
          = calls (session p)
            @ [captured [lit ''poetry'', lit ''build'', lit ''--format='' @ s, lit ''--no-ansi'']]"
    unfolding f build_plain_valid by (simp add: build_member build_args_def)
qed

theorem build_format_checked_witness:
  "build (Plain (lit ''zip'')) (Poetry_init (example_session (Inr (PyStr (lit ''x.whl'')))),
                                example_env (final_release [1, 2, 0]))
     = (Inl (ValueError (lit ''zip'')),
        Poetry_init (example_session (Inr (PyStr (lit ''x.whl'')))),
        example_env (final_release [1, 2, 0]))
   \<and> calls (session (Poetry_init (example_session (Inr (PyStr (lit ''x.whl'')))))) = []
   \<and> calls (session (fst (snd (build (Plain (lit ''sdist''))
        (Poetry_init (example_session (Inr (PyStr (lit ''x.tar.gz'')))),
         example_env (final_release [1, 2, 0]))))))
     = [captured [lit ''poetry'', lit ''build'', lit ''--format=sdist'', lit ''--no-ansi'']]"
proof -
  have z: "lit ''zip'' \<noteq> lit ''wheel'' \<and> lit ''zip'' \<noteq> lit ''sdist''"
    by (simp add: lit_def)
  show ?thesis
    using build_format_checked
            [of "lit ''zip''" "Poetry_init (example_session (Inr (PyStr (lit ''x.whl''))))"
                "example_env (final_release [1, 2, 0])"]
          build_format_checked
            [of "lit ''sdist''" "Poetry_init (example_session (Inr (PyStr (lit ''x.tar.gz''))))"
                "example_env (final_release [1, 2, 0])"]
          z
    by (simp add: Poetry_init_def example_session_def lit_def)
qed

text \<open>
  C6: when \<open>build\<close> runs with a valid format and the session hands back a text that
  ends with a token \<open>tok\<close>, that is a non-empty run of characters that are not
  whitespace, standing at the start of the text or after whitespace and followed by
  whitespace only, \<open>build\<close> returns \<open>tok\<close>; for the output of the doc comment it
  returns \<open>foobar-0.1.0-py3-none-any.whl\<close>.
\<close>

theorem build_returns_last_token:
  assumes "format = Member f \<or> format = Plain (format_value f)"
    and "respond (session p) (captured (build_args f)) = Inr (PyStr (before @ tok @ trail))"
    and "tok \<noteq> []" and "\<forall>c \<in> set tok. \<not> isspace c" and "\<forall>c \<in> set trail. isspace c"
    and "before = [] \<or> isspace (last before)"
  shows "fst (build format (p, e)) = Inr tok"
proof -
  have "build format (p, e) = build (Member f) (p, e)"
    using assms(1) by (auto simp: build_plain_valid)
  then show ?thesis
    using assms(2) split_last_token [OF assms(3,4,5,6)]
    by (simp add: build_member last_item_def)
qed

theorem build_returns_last_token_witness:
  "fst (build (Plain (lit ''wheel''))
          (Poetry_init (example_session (Inr (PyStr
             (lit ''Building foobar (0.1.0)\<newline> - Building wheel\<newline> - Built foobar-0.1.0-py3-none-any.whl\<newline>'')))),
           example_env (final_release [1, 2, 0])))
     = Inr (lit ''foobar-0.1.0-py3-none-any.whl'')"
proof -
  have f: "Plain (lit ''wheel'') = Member WHEEL \<or> Plain (lit ''wheel'') = Plain (format_value WHEEL)"
    by simp
  have r: "respond (session (Poetry_init (example_session (Inr (PyStr
             (lit ''Building foobar (0.1.0)\<newline> - Building wheel\<newline> - Built foobar-0.1.0-py3-none-any.whl\<newline>''))))))
             (captured (build_args WHEEL))
           = Inr (PyStr (lit ''Building foobar (0.1.0)\<newline> - Building wheel\<newline> - Built ''
                         @ lit ''foobar-0.1.0-py3-none-any.whl'' @ lit ''\<newline>''))"
    by (simp add: Poetry_init_def example_session_def lit_def)
  have t: "lit ''foobar-0.1.0-py3-none-any.whl'' \<noteq> []"
    by (simp add: lit_def)
  have n: "\<forall>c \<in> set (lit ''foobar-0.1.0-py3-none-any.whl''). \<not> isspace c"
    by (simp add: lit_def isspace_def)
  have w: "\<forall>c \<in> set (lit ''\<newline>''). isspace c"
    by (simp add: lit_def isspace_def)
  have b: "lit ''Building foobar (0.1.0)\<newline> - Building wheel\<newline> - Built '' = []
             \<or> isspace (last (lit ''Building foobar (0.1.0)\<newline> - Building wheel\<newline> - Built ''))"
    by (simp add: lit_def isspace_def)
  show ?thesis
    by (rule build_returns_last_token [OF f r t n w b])
qed

text \<open>
  C10: when \<open>build\<close> runs with a valid format and the session hands back a text that
  is empty or whitespace only, \<open>build\<close> raises \<open>IndexError\<close>, which is neither
  \<open>CommandSkippedError\<close> nor \<open>IncompatiblePoetryVersionError\<close>; it returns a filename
  exactly when the text has a character that is not whitespace.
\<close>

theorem build_without_token:
  assumes "format = Member f \<or> format = Plain (format_value f)"
    and "respond (session p) (captured (build_args f)) = Inr (PyStr out)"
  shows "((\<forall>c \<in> set out. isspace c) \<longrightarrow> fst (build format (p, e)) = Inl IndexError)
         \<and> ((\<exists>name. fst (build format (p, e)) = Inr name) \<longleftrightarrow> (\<exists>c \<in> set out. \<not> isspace c))
         \<and> (\<forall>m. IndexError \<noteq> CommandSkippedError m)
         \<and> IndexError \<noteq> IncompatiblePoetryVersionError"
proof -
  have "build format (p, e) = build (Member f) (p, e)"
    using assms(1) by (auto simp: build_plain_valid)
  then have "fst (build format (p, e)) = last_item (split out)"
    using assms(2) by (simp add: build_member)
  then show ?thesis
    using split_Nil_iff [of out] by (auto simp: last_item_def)
qed

theorem build_without_token_witness:
  "fst (build (Plain (lit ''wheel''))
          (Poetry_init (example_session (Inr (PyStr []))),
           example_env (final_release [1, 2, 0]))) = Inl IndexError
   \<and> fst (build (Member SDIST)
          (Poetry_init (example_session (Inr (PyStr (lit '' \<newline>'')))),
           example_env (final_release [1, 2, 0]))) = Inl IndexError"
proof -
  have f: "Plain (lit ''wheel'') = Member WHEEL \<or> Plain (lit ''wheel'') = Plain (format_value WHEEL)"
          "Member SDIST = Member SDIST \<or> Member SDIST = Plain (format_value SDIST)"
    by simp_all
  have r: "\<And>out a. respond (session (Poetry_init (example_session (Inr (PyStr out)))))
                     (captured a) = Inr (PyStr out)"
    by (simp add: Poetry_init_def example_session_def)
  have w: "\<forall>c \<in> set ([] :: pystr). isspace c" "\<forall>c \<in> set (lit '' \<newline>''). isspace c"
    by (simp_all add: lit_def isspace_def)
  show ?thesis
    using build_without_token [OF f(1) r, of "[]" "example_env (final_release [1, 2, 0])"]
          build_without_token [OF f(2) r, of "lit '' \<newline>''" "example_env (final_release [1, 2, 0])"]
          w
    by blast
qed

section \<open>The configuration reader and its cache\<close>

lemma Config_init_table:
  assumes "pyproject e = Inr data" and "map_of data (lit ''tool'') = Some (Table tool)"
    and "map_of tool (lit ''poetry'') = Some item"
  shows "fst (Config_init e) = Inr \<lparr>config_data = item\<rparr>"
  using assms by (simp add: Config_init_def Let_def)

lemma build_cached:
  "cached_config (fst (snd (build format (p, e)))) = cached_config p
     \<and> manifest_reads (snd (snd (build format (p, e)))) = manifest_reads e"
proof (cases format)
  case (Member f)
  then show ?thesis by (simp add: build_member)
next
  case (Plain s)
  show ?thesis
  proof (cases "s = lit ''wheel'' \<or> s = lit ''sdist''")
    case True
    then obtain f where "s = format_value f" by (metis format_value.simps)
    then show ?thesis using Plain by (simp add: build_plain_valid build_member)
  next
    case False
    then show ?thesis using Plain by (simp add: build_plain_invalid)
  qed
qed

text \<open>
  C8: for a manifest whose \<open>tool.poetry\<close> is a table, the reader is created; its
  \<open>name\<close> is the declared string, a \<open>KeyError\<close> when no name is declared and an
  \<open>AssertionError\<close> when the declared name is not a string; its \<open>extras\<close> are the keys
  of the declared extras table, as a set and in the order of the table, no extras at
  all when the manifest declares none, and an \<open>AssertionError\<close> when the declared
  extras are not a table. Another order of the keys
  of \<open>tool.poetry\<close> changes neither, and another order of the extras table gives the same
  set of extras.
\<close>

theorem config_name_and_extras:
  assumes "pyproject e = Inr data" and "map_of data (lit ''tool'') = Some (Table tool)"
    and "map_of tool (lit ''poetry'') = Some (Table poetry)"
  shows "fst (Config_init e) = Inr \<lparr>config_data = Table poetry\<rparr>
    \<and> (\<forall>name. map_of poetry (lit ''name'') = Some (String name) \<longrightarrow>
          Config_name \<lparr>config_data = Table poetry\<rparr> = Inr name)
    \<and> (map_of poetry (lit ''name'') = None \<longrightarrow>
          Config_name \<lparr>config_data = Table poetry\<rparr> = Inl (KeyError (lit ''name'')))
    \<and> (\<forall>v. map_of poetry (lit ''name'') = Some v \<and> (\<forall>name. v \<noteq> String name) \<longrightarrow>
          Config_name \<lparr>config_data = Table poetry\<rparr> = Inl AssertionError)
    \<and> (\<forall>extras. map_of poetry (lit ''extras'') = Some (Table extras) \<longrightarrow>
          Config_extras \<lparr>config_data = Table poetry\<rparr> = Inr (map fst extras)
          \<and> set (map fst extras) = fst ` set extras)
    \<and> (map_of poetry (lit ''extras'') = None \<longrightarrow>
          Config_extras \<lparr>config_data = Table poetry\<rparr> = Inr [])
    \<and> (\<forall>v. map_of poetry (lit ''extras'') = Some v \<and> (\<forall>extras. v \<noteq> Table extras) \<longrightarrow>
          Config_extras \<lparr>config_data = Table poetry\<rparr> = Inl AssertionError)
    \<and> (\<forall>poetry'. distinct (map fst poetry) \<and> distinct (map fst poetry')
          \<and> set poetry' = set poetry \<longrightarrow>
          Config_name \<lparr>config_data = Table poetry'\<rparr> = Config_name \<lparr>config_data = Table poetry\<rparr>
          \<and> Config_extras \<lparr>config_data = Table poetry'\<rparr>
              = Config_extras \<lparr>config_data = Table poetry\<rparr>)
    \<and> (\<forall>poetry' extras extras'. map_of poetry (lit ''extras'') = Some (Table extras)
          \<and> map_of poetry' (lit ''extras'') = Some (Table extras')
          \<and> set extras' = set extras \<longrightarrow>
          map_sum id set (Config_extras \<lparr>config_data = Table poetry'\<rparr>)
            = map_sum id set (Config_extras \<lparr>config_data = Table poetry\<rparr>))"
proof (intro conjI allI impI)
  show "fst (Config_init e) = Inr \<lparr>config_data = Table poetry\<rparr>"
    by (rule Config_init_table [OF assms])
next
  fix name assume "map_of poetry (lit ''name'') = Some (String name)"
  then show "Config_name \<lparr>config_data = Table poetry\<rparr> = Inr name"
    by (simp add: Config_name_def)
next
  assume "map_of poetry (lit ''name'') = None"
  then show "Config_name \<lparr>config_data = Table poetry\<rparr> = Inl (KeyError (lit ''name''))"
    by (simp add: Config_name_def)
next
  fix v assume "map_of poetry (lit ''name'') = Some v \<and> (\<forall>name. v \<noteq> String name)"
  then show "Config_name \<lparr>config_data = Table poetry\<rparr> = Inl AssertionError"
    by (cases v) (simp_all add: Config_name_def)
next
  fix extras assume "map_of poetry (lit ''extras'') = Some (Table extras)"
  then show "Config_extras \<lparr>config_data = Table poetry\<rparr> = Inr (map fst extras)"
    by (simp add: Config_extras_def)
next
  fix extras
  show "set (map fst extras) = fst ` set extras" by simp
next
  assume "map_of poetry (lit ''extras'') = None"
  then show "Config_extras \<lparr>config_data = Table poetry\<rparr> = Inr []"
    by (simp add: Config_extras_def)
next
  fix v assume "map_of poetry (lit ''extras'') = Some v \<and> (\<forall>extras. v \<noteq> Table extras)"
  then show "Config_extras \<lparr>config_data = Table poetry\<rparr> = Inl AssertionError"
    by (cases v) (simp_all add: Config_extras_def)
next
  fix poetry'
  assume "distinct (map fst poetry) \<and> distinct (map fst poetry') \<and> set poetry' = set poetry"
  then have m: "map_of poetry' = map_of poetry"
    by (simp add: map_of_inject_set)
  show "Config_name \<lparr>config_data = Table poetry'\<rparr> = Config_name \<lparr>config_data = Table poetry\<rparr>"
    by (simp add: Config_name_def m)
  show "Config_extras \<lparr>config_data = Table poetry'\<rparr>
          = Config_extras \<lparr>config_data = Table poetry\<rparr>"
    by (simp add: Config_extras_def m)
next
  fix poetry' extras extras'
  assume "map_of poetry (lit ''extras'') = Some (Table extras)
            \<and> map_of poetry' (lit ''extras'') = Some (Table extras')
            \<and> set extras' = set extras"
  then show "map_sum id set (Config_extras \<lparr>config_data = Table poetry'\<rparr>)
               = map_sum id set (Config_extras \<lparr>config_data = Table poetry\<rparr>)"
    by (simp add: Config_extras_def)
qed

text \<open>
  The example manifest, the same declarations with the keys of \<open>tool.poetry\<close> and of
  the extras in another order, and a manifest that declares a name and no extras.
\<close>

theorem config_name_and_extras_witness:
  "fst (Config_init (example_env (final_release [1, 2, 0]))) = Inr example_config
   \<and> Config_name example_config = Inr (lit ''foobar'')
   \<and> Config_extras example_config = Inr [lit ''pygments'', lit ''colors'']
   \<and> Config_name
        \<lparr>config_data =
           Table [(lit ''extras'',
                   Table [(lit ''pygments'', Array [String (lit ''pygments'')]),
                          (lit ''colors'', Array [String (lit ''colorama'')])]),
                  (lit ''version'', String (lit ''0.1.0'')),
                  (lit ''name'', String (lit ''foobar''))]\<rparr> = Inr (lit ''foobar'')
   \<and> map_sum id set (Config_extras
        \<lparr>config_data =
           Table [(lit ''name'', String (lit ''foobar'')),
                  (lit ''extras'',
                   Table [(lit ''colors'', Array [String (lit ''colorama'')]),
                          (lit ''pygments'', Array [String (lit ''pygments'')])])]\<rparr>)
       = Inr {lit ''pygments'', lit ''colors''}
   \<and> fst (Config_init
        ((example_env (final_release [1, 2, 0]))
           \<lparr>pyproject :=
              Inr [(lit ''tool'',
                    Table [(lit ''poetry'', Table [(lit ''name'', String (lit ''plain''))])])]\<rparr>))
       = Inr \<lparr>config_data = Table [(lit ''name'', String (lit ''plain''))]\<rparr>
   \<and> Config_name \<lparr>config_data = Table [(lit ''name'', String (lit ''plain''))]\<rparr>
       = Inr (lit ''plain'')
   \<and> Config_extras \<lparr>config_data = Table [(lit ''name'', String (lit ''plain''))]\<rparr> = Inr []"
proof -
  have d0: "pyproject ((example_env (final_release [1, 2, 0]))
           \<lparr>pyproject :=
              Inr [(lit ''tool'',
                    Table [(lit ''poetry'', Table [(lit ''name'', String (lit ''plain''))])])]\<rparr>)
          = Inr [(lit ''tool'',
                    Table [(lit ''poetry'', Table [(lit ''name'', String (lit ''plain''))])])]"
    by simp
  have t0: "map_of [(lit ''tool'',
                    Table [(lit ''poetry'', Table [(lit ''name'', String (lit ''plain''))])])]
              (lit ''tool'')
          = Some (Table [(lit ''poetry'', Table [(lit ''name'', String (lit ''plain''))])])"
    by simp
  have p0: "map_of [(lit ''poetry'', Table [(lit ''name'', String (lit ''plain''))])]
              (lit ''poetry'')
          = Some (Table [(lit ''name'', String (lit ''plain''))])"
    by simp
  have n0: "map_of [(lit ''name'', String (lit ''plain''))] (lit ''name'')
              = Some (String (lit ''plain''))"
    by simp
  have x0: "map_of [(lit ''name'', String (lit ''plain''))] (lit ''extras'') = None"
    by (simp add: lit_def)
  note th0 = config_name_and_extras [OF d0 t0 p0]
  have 6: "fst (Config_init
        ((example_env (final_release [1, 2, 0]))
           \<lparr>pyproject :=
              Inr [(lit ''tool'',
                    Table [(lit ''poetry'', Table [(lit ''name'', String (lit ''plain''))])])]\<rparr>))
       = Inr \<lparr>config_data = Table [(lit ''name'', String (lit ''plain''))]\<rparr>"
    using th0 by blast
  have 7: "Config_name \<lparr>config_data = Table [(lit ''name'', String (lit ''plain''))]\<rparr>
       = Inr (lit ''plain'')"
    using th0 n0 by blast
  have 8: "Config_extras \<lparr>config_data = Table [(lit ''name'', String (lit ''plain''))]\<rparr> = Inr []"
    using th0 x0 by blast
  have d: "pyproject (example_env (final_release [1, 2, 0])) = Inr example_manifest"
    by (simp add: example_env_def)
  have t: "map_of example_manifest (lit ''tool'')
             = Some (Table [(lit ''poetry'', config_data example_config)])"
    by (simp add: example_manifest_def example_config_def)
  have p: "map_of [(lit ''poetry'', config_data example_config)] (lit ''poetry'')
             = Some (Table [(lit ''name'', String (lit ''foobar'')),
                            (lit ''version'', String (lit ''0.1.0'')),
                            (lit ''extras'',
                             Table [(lit ''pygments'', Array [String (lit ''pygments'')]),
                                    (lit ''colors'', Array [String (lit ''colorama'')])])])"
    by (simp add: example_config_def)
  note th = config_name_and_extras [OF d t p]
  have k: "distinct (map fst [(lit ''name'', String (lit ''foobar'')),
                            (lit ''version'', String (lit ''0.1.0'')),
                            (lit ''extras'',
                             Table [(lit ''pygments'', Array [String (lit ''pygments'')]),
                                    (lit ''colors'', Array [String (lit ''colorama'')])])])"
    by (simp add: lit_def)
  have n: "map_of [(lit ''name'', String (lit ''foobar'')),
                   (lit ''version'', String (lit ''0.1.0'')),
                   (lit ''extras'',
                    Table [(lit ''pygments'', Array [String (lit ''pygments'')]),
                           (lit ''colors'', Array [String (lit ''colorama'')])])] (lit ''name'')
             = Some (String (lit ''foobar''))"
    by simp
  have x: "map_of [(lit ''name'', String (lit ''foobar'')),
                   (lit ''version'', String (lit ''0.1.0'')),
                   (lit ''extras'',
                    Table [(lit ''pygments'', Array [String (lit ''pygments'')]),
                           (lit ''colors'', Array [String (lit ''colorama'')])])] (lit ''extras'')
             = Some (Table [(lit ''pygments'', Array [String (lit ''pygments'')]),
                           (lit ''colors'', Array [String (lit ''colorama'')])])"
    by (simp add: lit_def)
  have 1: "fst (Config_init (example_env (final_release [1, 2, 0]))) = Inr example_config"
    using th by (simp add: example_config_def)
  have 2: "Config_name example_config = Inr (lit ''foobar'')"
    using th n by (simp add: example_config_def)
  have 3: "Config_extras example_config = Inr [lit ''pygments'', lit ''colors'']"
    using th x by (simp add: example_config_def)
  have 4: "Config_name
        \<lparr>config_data =
           Table [(lit ''extras'',
                   Table [(lit ''pygments'', Array [String (lit ''pygments'')]),
                          (lit ''colors'', Array [String (lit ''colorama'')])]),
                  (lit ''version'', String (lit ''0.1.0'')),
                  (lit ''name'', String (lit ''foobar''))]\<rparr> = Inr (lit ''foobar'')"
  proof -
    have "distinct (map fst [(lit ''extras'',
                   Table [(lit ''pygments'', Array [String (lit ''pygments'')]),
                          (lit ''colors'', Array [String (lit ''colorama'')])]),
                  (lit ''version'', String (lit ''0.1.0'')),
                  (lit ''name'', String (lit ''foobar''))])"
      by (simp add: lit_def)
    moreover have "set [(lit ''extras'',
                   Table [(lit ''pygments'', Array [String (lit ''pygments'')]),
                          (lit ''colors'', Array [String (lit ''colorama'')])]),
                  (lit ''version'', String (lit ''0.1.0'')),
                  (lit ''name'', String (lit ''foobar''))]
              = set [(lit ''name'', String (lit ''foobar'')),
                            (lit ''version'', String (lit ''0.1.0'')),
                            (lit ''extras'',
                             Table [(lit ''pygments'', Array [String (lit ''pygments'')]),
                                    (lit ''colors'', Array [String (lit ''colorama'')])])]"
      by auto
    ultimately show ?thesis using th k 2 by (simp add: example_config_def)
  qed
  have 5: "map_sum id set (Config_extras
        \<lparr>config_data =
           Table [(lit ''name'', String (lit ''foobar'')),
                  (lit ''extras'',
                   Table [(lit ''colors'', Array [String (lit ''colorama'')]),
                          (lit ''pygments'', Array [String (lit ''pygments'')])])]\<rparr>)
       = Inr {lit ''pygments'', lit ''colors''}"
  proof -
    have "map_of [(lit ''name'', String (lit ''foobar'')),
                  (lit ''extras'',
                   Table [(lit ''colors'', Array [String (lit ''colorama'')]),
                          (lit ''pygments'', Array [String (lit ''pygments'')])])] (lit ''extras'')
            = Some (Table [(lit ''colors'', Array [String (lit ''colorama'')]),
                          (lit ''pygments'', Array [String (lit ''pygments'')])])"
      by (simp add: lit_def)
    moreover have "set [(lit ''colors'', Array [String (lit ''colorama'')]),
                        (lit ''pygments'', Array [String (lit ''pygments'')])]
              = set [(lit ''pygments'', Array [String (lit ''pygments'')]),
                     (lit ''colors'', Array [String (lit ''colorama'')])]"
      by auto
    ultimately have "map_sum id set (Config_extras
        \<lparr>config_data =
           Table [(lit ''name'', String (lit ''foobar'')),
                  (lit ''extras'',
                   Table [(lit ''colors'', Array [String (lit ''colorama'')]),
                          (lit ''pygments'', Array [String (lit ''pygments'')])])]\<rparr>)
       = map_sum id set (Config_extras example_config)"
      using th x unfolding example_config_def by blast
    then show ?thesis using 3 by simp
  qed
  show ?thesis using 1 2 3 4 5 6 7 8 by blast
qed

lemma config_creates:
  assumes "cached_config p = None" and "pyproject e = Inr data"
    and "map_of data (lit ''tool'') = Some (Table tool)"
    and "map_of tool (lit ''poetry'') = Some item"
  shows "config (p, e)
           = (Inr \<lparr>config_data = item\<rparr>, p\<lparr>cached_config := Some \<lparr>config_data = item\<rparr>\<rparr>,
              e\<lparr>manifest_reads := Suc (manifest_reads e)\<rparr>)"
  using assms by (simp add: config_def Config_init_def Let_def)

lemma config_unreadable:
  assumes "cached_config p = None" and "pyproject e = Inl err"
  shows "config (p, e) = (Inl err, p, e\<lparr>manifest_reads := Suc (manifest_reads e)\<rparr>)"
  using assms by (simp add: config_def Config_init_def Let_def)

text \<open>
  C9: a new adapter holds no configuration, and building it reads nothing. On an
  adapter without configuration and with a manifest that holds the item
  \<open>tool.poetry\<close>, the access to \<open>config\<close> reads the manifest once, creates the
  configuration from that item, keeps it in the adapter and returns it. On every
  adapter that holds a configuration, an access returns that configuration and changes
  nothing, whatever the manifest has become; \<open>export\<close> and \<open>build\<close> leave the
  configuration in place and do not read the manifest, and \<open>export\<close> takes its extras
  from it. An access that raises on an adapter without configuration leaves it
  without one.
\<close>

theorem config_is_lazy:
  assumes "pyproject e = Inr data" and "map_of data (lit ''tool'') = Some (Table tool)"
    and "map_of tool (lit ''poetry'') = Some item"
  shows "cached_config (Poetry_init s) = None
   \<and> session (Poetry_init s) = s
   \<and> config (Poetry_init s, e)
       = (Inr \<lparr>config_data = item\<rparr>,
          \<lparr>session = s, cached_config = Some \<lparr>config_data = item\<rparr>\<rparr>,
          e\<lparr>manifest_reads := Suc (manifest_reads e)\<rparr>)
   \<and> (\<forall>p. cached_config p = None \<longrightarrow>
         config (p, e)
           = (Inr \<lparr>config_data = item\<rparr>, p\<lparr>cached_config := Some \<lparr>config_data = item\<rparr>\<rparr>,
              e\<lparr>manifest_reads := Suc (manifest_reads e)\<rparr>))
   \<and> (\<forall>p c e2. cached_config p = Some c \<longrightarrow>
         config (p, e2) = (Inr c, p, e2)
         \<and> (\<forall>groups.
               cached_config (fst (snd (export groups (p, e2)))) = Some c
               \<and> manifest_reads (snd (snd (export groups (p, e2)))) = manifest_reads e2)
         \<and> (\<forall>format.
               cached_config (fst (snd (build format (p, e2)))) = Some c
               \<and> manifest_reads (snd (snd (build format (p, e2)))) = manifest_reads e2)
         \<and> (\<forall>extras g gs. Config_extras c = Inr extras \<longrightarrow>
               fst (export_args (Some (g # gs)) (p, e2))
                 = Inr (base_args extras
                        @ map (\<lambda>group. lit ''--only='' @ group) (g # gs))))
   \<and> (\<forall>p e2 err p1 e1. cached_config p = None \<and> config (p, e2) = (Inl err, p1, e1) \<longrightarrow>
         cached_config p1 = None \<and> manifest_reads e1 = Suc (manifest_reads e2))
   \<and> (\<forall>p e2 err. cached_config p = None \<and> pyproject e2 = Inl err \<longrightarrow>
         config (p, e2) = (Inl err, p, e2\<lparr>manifest_reads := Suc (manifest_reads e2)\<rparr>))"
proof (intro conjI allI impI)
  show "cached_config (Poetry_init s) = None" by (simp add: Poetry_init_def)
  show "session (Poetry_init s) = s" by (simp add: Poetry_init_def)
  show "config (Poetry_init s, e)
       = (Inr \<lparr>config_data = item\<rparr>,
          \<lparr>session = s, cached_config = Some \<lparr>config_data = item\<rparr>\<rparr>,
          e\<lparr>manifest_reads := Suc (manifest_reads e)\<rparr>)"
    using config_creates [OF _ assms, of "Poetry_init s"] by (simp add: Poetry_init_def)
next
  fix p :: Poetry assume "cached_config p = None"
  then show "config (p, e)
           = (Inr \<lparr>config_data = item\<rparr>, p\<lparr>cached_config := Some \<lparr>config_data = item\<rparr>\<rparr>,
              e\<lparr>manifest_reads := Suc (manifest_reads e)\<rparr>)"
    by (rule config_creates [OF _ assms])
next
  fix p :: Poetry and c :: Config and e2 :: env assume c: "cached_config p = Some c"
  show "config (p, e2) = (Inr c, p, e2)" by (rule config_cached [OF c])
  show "cached_config (fst (snd (export groups (p, e2)))) = Some c" for groups
    using export_cached [OF c, of groups e2] by (cases "export groups (p, e2)") simp
  show "manifest_reads (snd (snd (export groups (p, e2)))) = manifest_reads e2" for groups
    using export_cached [OF c, of groups e2] by (cases "export groups (p, e2)") simp
  show "cached_config (fst (snd (build format (p, e2)))) = Some c" for format
    using build_cached [of format p e2] c by simp
  show "manifest_reads (snd (snd (build format (p, e2)))) = manifest_reads e2" for format
    using build_cached [of format p e2] by simp
  show "fst (export_args (Some (g # gs)) (p, e2))
          = Inr (base_args extras @ map (\<lambda>group. lit ''--only='' @ group) (g # gs))"
    if "Config_extras c = Inr extras" for extras g gs
    using export_args_groups [OF config_cached [OF c, of e2] that, of g gs] by simp
next
  fix p :: Poetry and e2 :: env and err p1 and e1 :: env
  assume h: "cached_config p = None \<and> config (p, e2) = (Inl err, p1, e1)"
  then show "cached_config p1 = None" and "manifest_reads e1 = Suc (manifest_reads e2)"
    using config_fresh_Inl [of p e2 err p1 e1] by simp_all
next
  fix p :: Poetry and e2 :: env and err
  assume "cached_config p = None \<and> pyproject e2 = Inl err"
  then show "config (p, e2) = (Inl err, p, e2\<lparr>manifest_reads := Suc (manifest_reads e2)\<rparr>)"
    by (simp add: config_unreadable)
qed

text \<open>
  A new adapter on the example manifest: the first access creates the configuration
  and counts one read; the second access, made after the manifest has gone, returns
  the same configuration and reads nothing, and so does an \<open>export\<close>, whose command
  line has the extras of the example manifest. A first access without manifest raises
  and keeps nothing.
\<close>

theorem config_is_lazy_witness:
  "cached_config (Poetry_init (example_session (Inr (PyStr [])))) = None
   \<and> config (Poetry_init (example_session (Inr (PyStr []))),
             example_env (final_release [1, 2, 0]))
       = (Inr example_config,
          \<lparr>session = example_session (Inr (PyStr [])), cached_config = Some example_config\<rparr>,
          (example_env (final_release [1, 2, 0]))\<lparr>manifest_reads := 1\<rparr>)
   \<and> config (\<lparr>session = example_session (Inr (PyStr [])),
               cached_config = Some example_config\<rparr>,
             (example_env (final_release [1, 2, 0]))
               \<lparr>pyproject := Inl (External (lit ''FileNotFoundError'')), manifest_reads := 1\<rparr>)
       = (Inr example_config,
          \<lparr>session = example_session (Inr (PyStr [])), cached_config = Some example_config\<rparr>,
          (example_env (final_release [1, 2, 0]))
            \<lparr>pyproject := Inl (External (lit ''FileNotFoundError'')), manifest_reads := 1\<rparr>)
   \<and> cached_config (fst (snd (export (Some [lit ''dev''])
        (\<lparr>session = example_session (Inr (PyStr [])), cached_config = Some example_config\<rparr>,
         (example_env (final_release [1, 2, 0]))
           \<lparr>pyproject := Inl (External (lit ''FileNotFoundError'')), manifest_reads := 1\<rparr>))))
       = Some example_config
   \<and> manifest_reads (snd (snd (export (Some [lit ''dev''])
        (\<lparr>session = example_session (Inr (PyStr [])), cached_config = Some example_config\<rparr>,
         (example_env (final_release [1, 2, 0]))
           \<lparr>pyproject := Inl (External (lit ''FileNotFoundError'')), manifest_reads := 1\<rparr>))))
       = 1
   \<and> fst (export_args (Some [lit ''dev''])
        (\<lparr>session = example_session (Inr (PyStr [])), cached_config = Some example_config\<rparr>,
         (example_env (final_release [1, 2, 0]))
           \<lparr>pyproject := Inl (External (lit ''FileNotFoundError'')), manifest_reads := 1\<rparr>))
       = Inr (base_args [lit ''pygments'', lit ''colors''] @ [lit ''--only='' @ lit ''dev''])
   \<and> config (Poetry_init (example_session (Inr (PyStr []))),
             (example_env (final_release [1, 2, 0]))
               \<lparr>pyproject := Inl (External (lit ''FileNotFoundError''))\<rparr>)
       = (Inl (External (lit ''FileNotFoundError'')),
          Poetry_init (example_session (Inr (PyStr []))),
          (example_env (final_release [1, 2, 0]))
            \<lparr>pyproject := Inl (External (lit ''FileNotFoundError'')), manifest_reads := 1\<rparr>)"
proof -
  have d: "pyproject (example_env (final_release [1, 2, 0])) = Inr example_manifest"
    by (simp add: example_env_def)
  have t: "map_of example_manifest (lit ''tool'')
             = Some (Table [(lit ''poetry'', config_data example_config)])"
    by (simp add: example_manifest_def example_config_def)
  have i: "map_of [(lit ''poetry'', config_data example_config)] (lit ''poetry'')
             = Some (config_data example_config)"
    by simp
  have r: "manifest_reads (example_env (final_release [1, 2, 0])) = 0"
    by (simp add: example_env_def)
  have u: "pyproject ((example_env (final_release [1, 2, 0]))
               \<lparr>pyproject := Inl (External (lit ''FileNotFoundError''))\<rparr>)
             = Inl (External (lit ''FileNotFoundError''))"
    by simp
  note th = config_is_lazy [OF d t i, of "example_session (Inr (PyStr []))"]
  have k: "cached_config \<lparr>session = example_session (Inr (PyStr [])),
                          cached_config = Some example_config\<rparr> = Some example_config"
    by simp
  have n: "cached_config (Poetry_init (example_session (Inr (PyStr [])))) = None"
    using th by blast
  have 1: "config (Poetry_init (example_session (Inr (PyStr []))),
             example_env (final_release [1, 2, 0]))
       = (Inr example_config,
          \<lparr>session = example_session (Inr (PyStr [])), cached_config = Some example_config\<rparr>,
          (example_env (final_release [1, 2, 0]))\<lparr>manifest_reads := 1\<rparr>)"
    using th [THEN conjunct2, THEN conjunct2, THEN conjunct1] r by simp
  note later = th [THEN conjunct2, THEN conjunct2, THEN conjunct2, THEN conjunct2,
                   THEN conjunct1, rule_format, OF k]
  have 2: "config (\<lparr>session = example_session (Inr (PyStr [])),
               cached_config = Some example_config\<rparr>,
             (example_env (final_release [1, 2, 0]))
               \<lparr>pyproject := Inl (External (lit ''FileNotFoundError'')), manifest_reads := 1\<rparr>)
       = (Inr example_config,
          \<lparr>session = example_session (Inr (PyStr [])), cached_config = Some example_config\<rparr>,
          (example_env (final_release [1, 2, 0]))
            \<lparr>pyproject := Inl (External (lit ''FileNotFoundError'')), manifest_reads := 1\<rparr>)"
    using later by blast
  have 3: "cached_config (fst (snd (export (Some [lit ''dev''])
        (\<lparr>session = example_session (Inr (PyStr [])), cached_config = Some example_config\<rparr>,
         (example_env (final_release [1, 2, 0]))
           \<lparr>pyproject := Inl (External (lit ''FileNotFoundError'')), manifest_reads := 1\<rparr>))))
       = Some example_config"
    using later by blast
  have "manifest_reads (snd (snd (export (Some [lit ''dev''])
        (\<lparr>session = example_session (Inr (PyStr [])), cached_config = Some example_config\<rparr>,
         (example_env (final_release [1, 2, 0]))
           \<lparr>pyproject := Inl (External (lit ''FileNotFoundError'')), manifest_reads := 1\<rparr>))))
       = manifest_reads ((example_env (final_release [1, 2, 0]))
           \<lparr>pyproject := Inl (External (lit ''FileNotFoundError'')), manifest_reads := 1\<rparr>)"
    using later by blast
  then have 4: "manifest_reads (snd (snd (export (Some [lit ''dev''])
        (\<lparr>session = example_session (Inr (PyStr [])), cached_config = Some example_config\<rparr>,
         (example_env (final_release [1, 2, 0]))
           \<lparr>pyproject := Inl (External (lit ''FileNotFoundError'')), manifest_reads := 1\<rparr>))))
       = 1"
    by simp
  have 5: "fst (export_args (Some [lit ''dev''])
        (\<lparr>session = example_session (Inr (PyStr [])), cached_config = Some example_config\<rparr>,
         (example_env (final_release [1, 2, 0]))
           \<lparr>pyproject := Inl (External (lit ''FileNotFoundError'')), manifest_reads := 1\<rparr>))
       = Inr (base_args [lit ''pygments'', lit ''colors''] @ [lit ''--only='' @ lit ''dev''])"
    using later example_config_extras by simp
  have 6: "config (Poetry_init (example_session (Inr (PyStr []))),
             (example_env (final_release [1, 2, 0]))
               \<lparr>pyproject := Inl (External (lit ''FileNotFoundError''))\<rparr>)
       = (Inl (External (lit ''FileNotFoundError'')),
          Poetry_init (example_session (Inr (PyStr []))),
          (example_env (final_release [1, 2, 0]))
            \<lparr>pyproject := Inl (External (lit ''FileNotFoundError'')), manifest_reads := 1\<rparr>)"
    using th [THEN conjunct2, THEN conjunct2, THEN conjunct2, THEN conjunct2, THEN conjunct2,
              THEN conjunct2, rule_format, of "Poetry_init (example_session (Inr (PyStr [])))"
              "(example_env (final_release [1, 2, 0]))
                 \<lparr>pyproject := Inl (External (lit ''FileNotFoundError''))\<rparr>"
              "External (lit ''FileNotFoundError'')"] n u r
    by simp
  show ?thesis using n 1 2 3 4 5 6 by blast
qed

end
